theory Spec2Isabelle
  imports Complex_Main
begin

section \<open>The surface reactor test of RMG-Py\<close>

text \<open>
  The development follows \<^verbatim>\<open>rmgpy/solver/surfaceTest.py\<close>: the method
  \<^verbatim>\<open>SurfaceReactorCheck.testSolve\<close> builds the model reaction
  \<^verbatim>\<open>H2 + 2X <=> 2 HX\<close>, integrates it over a logarithmic grid of times and
  asserts flux consistency and equilibrium; after an unconditional \<^verbatim>\<open>return\<close> the file
  carries two further unit tests (finite-difference Jacobian, rate-coefficient sensitivity).

  Python floats are modelled as real numbers (exact arithmetic). Molecular structure and
  thermochemistry of a species are consumed by the external collaborators only, so a species
  is represented by its name.
\<close>

subsection \<open>Data of the test\<close>

datatype py_exception =
  AssertionError | IndexError | ValueError | NameError | ImportError | ExternalError

datatype species = H2 | X | HX | CH4 | CH3 | C2H6 | C2H5

text \<open>Kinetics parameters are stored by their SI values (\<^verbatim>\<open>A.value_si\<close> and so on).\<close>

record kinetics =
  A_value_si :: real
  n_exponent :: real
  Ea_value_si :: real
  T0_value_si :: real

record reaction =
  reactants :: "species list"
  products :: "species list"
  kinetics :: kinetics

datatype termination_criterion = TerminationTime real | TerminationConversion species real

record reactor_conditions =
  cond_T :: real
  cond_initialP :: real
  initialGasMoleFractions :: "(species \<times> real) list"
  initialSurfaceCoverages :: "(species \<times> real) list"
  surfaceVolumeRatio :: real
  surfaceSiteDensity :: real
  cond_termination :: "termination_criterion list"

text \<open>Lines 51-56: \<^verbatim>\<open>A = 9.05e18 cm^5/(mol^2*s)\<close> is \<open>9.05e8\<close> in SI units, \<^verbatim>\<open>Ea = 5 kJ/mol\<close>.\<close>

definition rxn1 :: reaction where
  "rxn1 = \<lparr>reactants = [H2, X, X], products = [HX, HX],
     kinetics = \<lparr>A_value_si = 9.05 * 10 ^ 18 * (1 / 10 ^ 10), n_exponent = 0.5,
       Ea_value_si = 5.0 * 1000, T0_value_si = 1.0\<rparr>\<rparr>"

definition coreSpecies :: "species list" where
  "coreSpecies = [H2, X, HX]"

definition edgeSpecies :: "species list" where
  "edgeSpecies = []"

definition coreReactions :: "reaction list" where
  "coreReactions = [rxn1]"

definition edgeReactions :: "reaction list" where
  "edgeReactions = []"

text \<open>Lines 63-71: the reactor conditions (site density \<^verbatim>\<open>2.72e-9 mol/cm^2\<close> in SI).\<close>

definition testConditions :: reactor_conditions where
  "testConditions = \<lparr>cond_T = 1000, cond_initialP = 1.0 * 10 ^ 5,
     initialGasMoleFractions = [(H2, 1.0)], initialSurfaceCoverages = [(X, 1.0)],
     surfaceVolumeRatio = 10, surfaceSiteDensity = 2.72 * (1 / 10 ^ 9) * 10 ^ 4,
     cond_termination = []\<rparr>"

subsection \<open>The sampling grid\<close>

text \<open>Python's \<^verbatim>\<open>range(a, b)\<close> stops before \<open>b\<close>.\<close>

definition py_range :: "int \<Rightarrow> int \<Rightarrow> int list" where
  "py_range a b = [a..b - 1]"

text \<open>Lines 76-77: \<^verbatim>\<open>tlist = [10 ** (i / 10.0) for i in range(-130, -49)]\<close>.\<close>

definition tlist :: "real list" where
  "tlist = map (\<lambda>i. 10 powr (real_of_int i / 10.0)) (py_range (-130) (-49))"

subsection \<open>The external collaborators\<close>

text \<open>
  The reactor classes, the kinetics objects, the constants module and the plotting library are
  not part of the file under study. Their operations are the fields of a record, so that a
  statement about the test holds for every behaviour of them. \<open>'r\<close> is the type of surface
  reactor objects, \<open>'g\<close> the type of the gas-phase reactor objects of the later unit tests;
  an operation that may raise returns a sum. The record holds the operations that the file
  reaches through names it imports or through objects it has built; the names it uses
  without binding them are the subject of the next subsection.
\<close>

record ('r, 'g) collaborators =
  ext_SurfaceReactor :: "reactor_conditions \<Rightarrow> py_exception + 'r"
  ext_initializeModel ::
    "species list \<Rightarrow> reaction list \<Rightarrow> species list \<Rightarrow> reaction list \<Rightarrow> 'r \<Rightarrow> py_exception + 'r"
  ext_advance :: "real \<Rightarrow> 'r \<Rightarrow> py_exception + 'r"
  ext_t :: "'r \<Rightarrow> real"
  ext_y :: "'r \<Rightarrow> real list"
  ext_coreReactionRates :: "'r \<Rightarrow> real list"
  ext_coreSpeciesRates :: "'r \<Rightarrow> real list"
  ext_T_value_si :: "'r \<Rightarrow> real"
  ext_initialP_value_si :: "'r \<Rightarrow> real"
  ext_R :: real
  ext_pylab :: "real list \<Rightarrow> real list list \<Rightarrow> real list list \<Rightarrow> py_exception + unit"
  ext_initializeModel_gas ::
    "species list \<Rightarrow> reaction list \<Rightarrow> species list \<Rightarrow> reaction list \<Rightarrow> 'g \<Rightarrow> py_exception + 'g"
  ext_y_gas :: "'g \<Rightarrow> real list"
  ext_residual :: "'g \<Rightarrow> real \<Rightarrow> real list \<Rightarrow> real list \<Rightarrow> py_exception + (real list \<times> int)"
  ext_jacobian ::
    "'g \<Rightarrow> real \<Rightarrow> real list \<Rightarrow> real list \<Rightarrow> real \<Rightarrow> py_exception + real list list"
  ext_computeRateDerivative :: "'g \<Rightarrow> py_exception + real list list"
  ext_termination_append :: "termination_criterion \<Rightarrow> 'g \<Rightarrow> 'g"
  ext_simulate :: "species list \<Rightarrow> reaction list \<Rightarrow> 'g \<Rightarrow> py_exception + 'g"
  ext_getRateCoefficient :: "reaction \<Rightarrow> real \<Rightarrow> real \<Rightarrow> real"

subsection \<open>Global names\<close>

text \<open>
  A name that a function never assigns is looked up among the globals of its module (and the
  builtins) at the moment the statement that reads it runs; a name that is bound there
  yields its value, any other raises \<^verbatim>\<open>NameError\<close>. \<^verbatim>\<open>testSolve\<close> reads seven
  such names that are no builtins: \<^verbatim>\<open>C2H6\<close>, \<^verbatim>\<open>CH3\<close>, \<^verbatim>\<open>CH4\<close>,
  \<^verbatim>\<open>C2H5\<close>, \<^verbatim>\<open>Arrhenius\<close>, \<^verbatim>\<open>SimpleReactor\<close> and \<^verbatim>\<open>P\<close>. The
  record holds what each of them is bound to, if anything: a species, the kinetics
  constructor (called with \<open>A\<close>, \<open>n\<close>, \<open>Ea\<close> and \<open>T0\<close>), the class of gas-phase
  reactors (called with \<open>T\<close>, \<open>P\<close>, the mole fractions and the termination criteria)
  and a pressure.
\<close>

record 'g module_globals =
  global_C2H6 :: "species option"
  global_CH3 :: "species option"
  global_CH4 :: "species option"
  global_C2H5 :: "species option"
  global_Arrhenius :: "(real \<Rightarrow> real \<Rightarrow> real \<Rightarrow> real \<Rightarrow> kinetics) option"
  global_SimpleReactor ::
    "(real \<Rightarrow> real \<Rightarrow> (species \<times> real) list \<Rightarrow> termination_criterion list
        \<Rightarrow> py_exception + 'g) option"
  global_P :: "real option"

text \<open>
  Lines 4-21: the module binds \<^verbatim>\<open>unittest\<close>, \<^verbatim>\<open>numpy\<close>, \<^verbatim>\<open>rmgpy\<close>,
  \<^verbatim>\<open>Molecule\<close>, \<^verbatim>\<open>Species\<close>, \<^verbatim>\<open>Reaction\<close>, \<^verbatim>\<open>SurfaceReaction\<close>,
  \<^verbatim>\<open>SurfaceArrhenius\<close>, \<^verbatim>\<open>ThermoData\<close>, \<^verbatim>\<open>SurfaceReactor\<close>,
  \<^verbatim>\<open>TerminationTime\<close>, \<^verbatim>\<open>TerminationConversion\<close>, \<^verbatim>\<open>constants\<close> and the
  class \<^verbatim>\<open>SurfaceReactorCheck\<close>, and nothing else: none of the seven names is bound.
\<close>

definition surfaceTest_globals :: "'g module_globals" where
  "surfaceTest_globals = \<lparr>global_C2H6 = None, global_CH3 = None, global_CH4 = None,
     global_C2H5 = None, global_Arrhenius = None, global_SimpleReactor = None,
     global_P = None\<rparr>"

subsection \<open>Statements, abrupt completion and the trace of executed lines\<close>

text \<open>
  A Python function body is a sequence of statements. A statement either is
  \<^verbatim>\<open>return\<close> or transforms the local variables and may raise. Executing a body yields
  the source lines of the statements that were started, in order, and how the body ended.
\<close>

datatype 's stmt = Exec "'s \<Rightarrow> py_exception + 's" | ReturnNone

datatype 's outcome = Returned 's | Raised py_exception | FellThrough 's

fun exec_stmts :: "(nat \<times> 's stmt) list \<Rightarrow> 's \<Rightarrow> nat list \<times> 's outcome" where
  "exec_stmts [] s = ([], FellThrough s)"
| "exec_stmts ((l, ReturnNone) # rest) s = ([l], Returned s)"
| "exec_stmts ((l, Exec f) # rest) s =
     (case f s of
        Inl e \<Rightarrow> ([l], Raised e)
      | Inr s' \<Rightarrow> (case exec_stmts rest s' of (tr, out) \<Rightarrow> (l # tr, out)))"

text \<open>A \<^verbatim>\<open>for\<close> loop whose body may raise.\<close>

fun for_each :: "('a \<Rightarrow> 's \<Rightarrow> py_exception + 's) \<Rightarrow> 'a list \<Rightarrow> 's \<Rightarrow> py_exception + 's" where
  "for_each body [] s = Inr s"
| "for_each body (x # xs) s =
     (case body x s of Inl e \<Rightarrow> Inl e | Inr s' \<Rightarrow> for_each body xs s')"

subsection \<open>Library operations used by the test\<close>

text \<open>
  \<^verbatim>\<open>unittest.TestCase.assertAlmostEqual(first, second, delta=delta)\<close>: equal
  arguments pass at once; otherwise the absolute difference must not exceed \<open>delta\<close>.
\<close>

definition assertAlmostEqual :: "real \<Rightarrow> real \<Rightarrow> real \<Rightarrow> py_exception + unit" where
  "assertAlmostEqual first second delta =
     (if first = second then Inr ()
      else if \<bar>first - second\<bar> \<le> delta then Inr ()
      else Inl AssertionError)"

text \<open>Indexing with a Python integer: a negative index counts from the end.\<close>

definition getitem :: "'a list \<Rightarrow> int \<Rightarrow> py_exception + 'a" where
  "getitem xs i =
     (if 0 \<le> i \<and> i < int (length xs) then Inr (xs ! nat i)
      else if i < 0 \<and> - int (length xs) \<le> i then Inr (xs ! nat (int (length xs) + i))
      else Inl IndexError)"

text \<open>Two-dimensional indexing \<^verbatim>\<open>a[i, j]\<close> of an array stored by rows.\<close>

definition getitem2 :: "'a list list \<Rightarrow> int \<Rightarrow> int \<Rightarrow> py_exception + 'a" where
  "getitem2 a i j = (case getitem a i of Inl e \<Rightarrow> Inl e | Inr row \<Rightarrow> getitem row j)"

subsection \<open>The local variables of testSolve\<close>

text \<open>
  \<open>t_samples\<close>, \<open>y_samples\<close> and \<open>V_local\<close> stand for the locals \<^verbatim>\<open>t\<close>, \<^verbatim>\<open>y\<close>
  and \<^verbatim>\<open>V\<close>. A local that is read before it is bound raises \<open>NameError\<close>. The last
  five fields are locals of the unit tests that follow the \<^verbatim>\<open>return\<close>;
  \<open>coreSpecies_gas\<close> is the local \<^verbatim>\<open>coreSpecies\<close> once line 221 or line 289 has
  bound it again.
\<close>

record ('r, 'g) frame =
  rxnSystem :: "'r option"
  t_samples :: "real list"
  y_samples :: "real list list"
  reactionRates :: "real list list"
  speciesRates :: "real list list"
  V_local :: "real option"
  rxnList :: "reaction list"
  coreSpecies_gas :: "species list"
  dfdt0 :: "real list"
  solver_dfdk :: "real list list"
  dfdk :: "real list list"

definition empty_frame :: "('r, 'g) frame" where
  "empty_frame = \<lparr>rxnSystem = None, t_samples = [], y_samples = [], reactionRates = [],
     speciesRates = [], V_local = None, rxnList = [], coreSpecies_gas = [], dfdt0 = [],
     solver_dfdk = [], dfdk = []\<rparr>"

subsection \<open>The statements before the return (lines 28-127)\<close>

text \<open>Lines 65-71: \<^verbatim>\<open>rxnSystem = SurfaceReactor(T, initialP, ...)\<close>.\<close>

definition stmt_SurfaceReactor ::
  "('r, 'g) collaborators \<Rightarrow> ('r, 'g) frame \<Rightarrow> py_exception + ('r, 'g) frame" where
  "stmt_SurfaceReactor ext s =
     (case ext_SurfaceReactor ext testConditions of
        Inl e \<Rightarrow> Inl e
      | Inr r \<Rightarrow> Inr (s\<lparr>rxnSystem := Some r\<rparr>))"

text \<open>Lines 73-74: \<^verbatim>\<open>rxnSystem.initializeModel(coreSpecies, coreReactions, ...)\<close>.\<close>

definition stmt_initializeModel ::
  "('r, 'g) collaborators \<Rightarrow> ('r, 'g) frame \<Rightarrow> py_exception + ('r, 'g) frame" where
  "stmt_initializeModel ext s =
     (case rxnSystem s of
        None \<Rightarrow> Inl NameError
      | Some r \<Rightarrow>
          (case ext_initializeModel ext coreSpecies coreReactions edgeSpecies edgeReactions r of
             Inl e \<Rightarrow> Inl e
           | Inr r' \<Rightarrow> Inr (s\<lparr>rxnSystem := Some r'\<rparr>)))"

text \<open>
  Lines 85-91, the body of the integration loop: advance to \<open>t1\<close>, then append the time
  and copies of the state and of the cached rates. A copy of an array is its value.
\<close>

definition advance_and_record ::
  "('r, 'g) collaborators \<Rightarrow> real \<Rightarrow> ('r, 'g) frame \<Rightarrow> py_exception + ('r, 'g) frame" where
  "advance_and_record ext t1 s =
     (case rxnSystem s of
        None \<Rightarrow> Inl NameError
      | Some r \<Rightarrow>
          (case ext_advance ext t1 r of
             Inl e \<Rightarrow> Inl e
           | Inr r' \<Rightarrow>
               Inr (s\<lparr>rxnSystem := Some r',
                     t_samples := t_samples s @ [ext_t ext r'],
                     y_samples := y_samples s @ [ext_y ext r'],
                     reactionRates := reactionRates s @ [ext_coreReactionRates ext r'],
                     speciesRates := speciesRates s @ [ext_coreSpeciesRates ext r']\<rparr>)))"

text \<open>Lines 80-91: the four lists start empty, then the loop runs over \<open>tlist\<close>.\<close>

definition stmt_integrate ::
  "('r, 'g) collaborators \<Rightarrow> ('r, 'g) frame \<Rightarrow> py_exception + ('r, 'g) frame" where
  "stmt_integrate ext s =
     for_each (advance_and_record ext) tlist
       (s\<lparr>t_samples := [], y_samples := [], reactionRates := [], speciesRates := []\<rparr>)"

text \<open>
  Lines 94-98: the conversions to arrays keep the values;
  \<^verbatim>\<open>V = constants.R * rxnSystem.T.value_si * numpy.sum(y) / rxnSystem.initialP.value_si\<close>.
\<close>

definition stmt_volume ::
  "('r, 'g) collaborators \<Rightarrow> ('r, 'g) frame \<Rightarrow> py_exception + ('r, 'g) frame" where
  "stmt_volume ext s =
     (case rxnSystem s of
        None \<Rightarrow> Inl NameError
      | Some r \<Rightarrow>
          Inr (s\<lparr>V_local := Some (ext_R ext * ext_T_value_si ext r
                  * sum_list (map sum_list (y_samples s)) / ext_initialP_value_si ext r)\<rparr>))"

text \<open>Lines 102-107: the three flux assertions at sample \<open>i\<close>.\<close>

definition flux_assertions_at :: "real list list \<Rightarrow> real list list \<Rightarrow> int \<Rightarrow> py_exception + unit" where
  "flux_assertions_at rr sr i =
     (case getitem2 rr i 0 of Inl e \<Rightarrow> Inl e | Inr r0 \<Rightarrow>
     (case getitem2 sr i 0 of Inl e \<Rightarrow> Inl e | Inr s0 \<Rightarrow>
     (case assertAlmostEqual r0 (- 1.0 * s0) (1 / 10 ^ 6 * r0) of Inl e \<Rightarrow> Inl e | Inr _ \<Rightarrow>
     (case getitem2 sr i 1 of Inl e \<Rightarrow> Inl e | Inr s1 \<Rightarrow>
     (case assertAlmostEqual r0 (- 0.5 * s1) (1 / 10 ^ 6 * r0) of Inl e \<Rightarrow> Inl e | Inr _ \<Rightarrow>
     (case getitem2 sr i 2 of Inl e \<Rightarrow> Inl e | Inr s2 \<Rightarrow>
      assertAlmostEqual r0 (0.5 * s2) (1 / 10 ^ 6 * r0)))))))"

text \<open>Lines 101-107: \<^verbatim>\<open>for i in range(t.shape[0])\<close>.\<close>

definition stmt_flux_assertions :: "('r, 'g) frame \<Rightarrow> py_exception + ('r, 'g) frame" where
  "stmt_flux_assertions s =
     for_each
       (\<lambda>i s'. case flux_assertions_at (reactionRates s') (speciesRates s') i of
                 Inl e \<Rightarrow> Inl e | Inr _ \<Rightarrow> Inr s')
       (py_range 0 (int (length (t_samples s)))) s"

text \<open>Line 110: \<^verbatim>\<open>self.assertAlmostEqual(reactionRates[-1, 0], 0.0, delta=1e-2)\<close>.\<close>

definition stmt_equilibrium_assertion :: "('r, 'g) frame \<Rightarrow> py_exception + ('r, 'g) frame" where
  "stmt_equilibrium_assertion s =
     (case getitem2 (reactionRates s) (- 1) 0 of
        Inl e \<Rightarrow> Inl e
      | Inr r_final \<Rightarrow>
          (case assertAlmostEqual r_final 0.0 (1 / 10 ^ 2) of
             Inl e \<Rightarrow> Inl e | Inr _ \<Rightarrow> Inr s))"

text \<open>Lines 114-127: the plot of \<^verbatim>\<open>y[:, 2]\<close> and of the species rates against \<open>t\<close>.\<close>

definition stmt_plot ::
  "('r, 'g) collaborators \<Rightarrow> ('r, 'g) frame \<Rightarrow> py_exception + ('r, 'g) frame" where
  "stmt_plot ext s =
     (case ext_pylab ext (t_samples s) (y_samples s) (speciesRates s) of
        Inl e \<Rightarrow> Inl e | Inr _ \<Rightarrow> Inr s)"

subsection \<open>The unit tests after the return (lines 132-350)\<close>

text \<open>
  The statements after line 130 read the seven global names; each statement below takes the
  globals \<open>gl\<close> of the module and looks a name up where the source reads it, in the
  order in which Python evaluates the expressions of the statement.
\<close>

text \<open>
  Line 63 binds the temperature; line 238, \<^verbatim>\<open>numCoreSpecies = len(coreSpecies)\<close>, is
  the length of the five-element list of line 221.
\<close>

definition test_T :: real where
  "test_T = 1000"

definition numCoreSpecies :: nat where
  "numCoreSpecies = 5"

text \<open>Lines 221 and 289: \<^verbatim>\<open>coreSpecies = [CH4, CH3, C2H6, C2H5, H2]\<close>.\<close>

definition gas_coreSpecies :: "'g module_globals \<Rightarrow> py_exception + species list" where
  "gas_coreSpecies gl =
     (case global_CH4 gl of None \<Rightarrow> Inl NameError | Some ch4 \<Rightarrow>
     (case global_CH3 gl of None \<Rightarrow> Inl NameError | Some ch3 \<Rightarrow>
     (case global_C2H6 gl of None \<Rightarrow> Inl NameError | Some c2h6 \<Rightarrow>
     (case global_C2H5 gl of None \<Rightarrow> Inl NameError | Some c2h5 \<Rightarrow>
        Inr [ch4, ch3, c2h6, c2h5, H2]))))"

text \<open>
  Lines 227-232 (and 295-300, 326-331): the dictionary
  \<^verbatim>\<open>{CH4: 0.2, CH3: 0.1, C2H6: 0.35, C2H5: 0.15, H2: 0.2}\<close>, as the list of its items.
\<close>

definition gas_initialMoleFractions ::
  "'g module_globals \<Rightarrow> py_exception + (species \<times> real) list" where
  "gas_initialMoleFractions gl =
     (case global_CH4 gl of None \<Rightarrow> Inl NameError | Some ch4 \<Rightarrow>
     (case global_CH3 gl of None \<Rightarrow> Inl NameError | Some ch3 \<Rightarrow>
     (case global_C2H6 gl of None \<Rightarrow> Inl NameError | Some c2h6 \<Rightarrow>
     (case global_C2H5 gl of None \<Rightarrow> Inl NameError | Some c2h5 \<Rightarrow>
        Inr [(ch4, 0.2), (ch3, 0.1), (c2h6, 0.35), (c2h5, 0.15), (H2, 0.2)]))))"

text \<open>
  Lines 145-218: the ten reactions of the Jacobian test, for given values of the names
  \<^verbatim>\<open>Arrhenius\<close>, \<^verbatim>\<open>C2H6\<close>, \<^verbatim>\<open>CH3\<close>, \<^verbatim>\<open>C2H5\<close> and \<^verbatim>\<open>CH4\<close>.
\<close>

definition rxnList_jacobian ::
  "(real \<Rightarrow> real \<Rightarrow> real \<Rightarrow> real \<Rightarrow> kinetics) \<Rightarrow> species \<Rightarrow> species \<Rightarrow> species \<Rightarrow> species
    \<Rightarrow> reaction list" where
  "rxnList_jacobian arrhenius c2h6 ch3 c2h5 ch4 =
     [\<lparr>reactants = [c2h6], products = [ch3, ch3],
        kinetics = arrhenius (686.375 * 6) 4.40721 7.82799 298.15\<rparr>,
      \<lparr>reactants = [ch3, ch3], products = [c2h6],
        kinetics = arrhenius (686.375 * 6) 4.40721 7.82799 298.15\<rparr>,
      \<lparr>reactants = [c2h6, ch3], products = [c2h5, ch4],
        kinetics = arrhenius (46.375 * 6) 3.40721 6.82799 298.15\<rparr>,
      \<lparr>reactants = [c2h5, ch4], products = [c2h6, ch3],
        kinetics = arrhenius (46.375 * 6) 3.40721 6.82799 298.15\<rparr>,
      \<lparr>reactants = [c2h5, ch4], products = [ch3, ch3, ch3],
        kinetics = arrhenius (246.375 * 6) 1.40721 3.82799 298.15\<rparr>,
      \<lparr>reactants = [ch3, ch3, ch3], products = [c2h5, ch4],
        kinetics = arrhenius (246.375 * 6) 1.40721 3.82799 298.15\<rparr>,
      \<lparr>reactants = [c2h6, ch3, ch3], products = [c2h5, c2h5, H2],
        kinetics = arrhenius (146.375 * 6) 2.40721 8.82799 298.15\<rparr>,
      \<lparr>reactants = [c2h5, c2h5, H2], products = [c2h6, ch3, ch3],
        kinetics = arrhenius (146.375 * 6) 2.40721 8.82799 298.15\<rparr>,
      \<lparr>reactants = [c2h6, c2h6], products = [ch3, ch4, c2h5],
        kinetics = arrhenius (1246.375 * 6) 0.40721 8.82799 298.15\<rparr>,
      \<lparr>reactants = [ch3, ch4, c2h5], products = [c2h6, c2h6],
        kinetics = arrhenius (46.375 * 6) 0.10721 8.82799 298.15\<rparr>]"

text \<open>
  Lines 145-218 as a statement: the first append reads \<^verbatim>\<open>C2H6\<close>, \<^verbatim>\<open>CH3\<close> and
  \<^verbatim>\<open>Arrhenius\<close> (lines 145-147), the third \<^verbatim>\<open>C2H5\<close> and \<^verbatim>\<open>CH4\<close> (line 161).
\<close>

definition stmt_rxnList_jacobian ::
  "'g module_globals \<Rightarrow> ('r, 'g) frame \<Rightarrow> py_exception + ('r, 'g) frame" where
  "stmt_rxnList_jacobian gl s =
     (case global_C2H6 gl of None \<Rightarrow> Inl NameError | Some c2h6 \<Rightarrow>
     (case global_CH3 gl of None \<Rightarrow> Inl NameError | Some ch3 \<Rightarrow>
     (case global_Arrhenius gl of None \<Rightarrow> Inl NameError | Some arrhenius \<Rightarrow>
     (case global_C2H5 gl of None \<Rightarrow> Inl NameError | Some c2h5 \<Rightarrow>
     (case global_CH4 gl of None \<Rightarrow> Inl NameError | Some ch4 \<Rightarrow>
        Inr (s\<lparr>rxnList := rxnList s @ rxnList_jacobian arrhenius c2h6 ch3 c2h5 ch4\<rparr>))))))"

text \<open>Lines 267-287: the three reactions of the sensitivity test.\<close>

definition rxnList_sensitivity ::
  "(real \<Rightarrow> real \<Rightarrow> real \<Rightarrow> real \<Rightarrow> kinetics) \<Rightarrow> species \<Rightarrow> species \<Rightarrow> species \<Rightarrow> species
    \<Rightarrow> reaction list" where
  "rxnList_sensitivity arrhenius c2h6 ch3 c2h5 ch4 =
     [\<lparr>reactants = [c2h6], products = [ch3, ch3],
        kinetics = arrhenius (686.375 * 10 ^ 6) 4.40721 7.82799 298.15\<rparr>,
      \<lparr>reactants = [c2h6, ch3], products = [c2h5, ch4],
        kinetics = arrhenius (46.375 * 6) 3.40721 6.82799 298.15\<rparr>,
      \<lparr>reactants = [c2h6, ch3, ch3], products = [c2h5, c2h5, H2],
        kinetics = arrhenius (146.375 * 6) 2.40721 8.82799 298.15\<rparr>]"

definition stmt_rxnList_sensitivity ::
  "'g module_globals \<Rightarrow> ('r, 'g) frame \<Rightarrow> py_exception + ('r, 'g) frame" where
  "stmt_rxnList_sensitivity gl s =
     (case global_C2H6 gl of None \<Rightarrow> Inl NameError | Some c2h6 \<Rightarrow>
     (case global_CH3 gl of None \<Rightarrow> Inl NameError | Some ch3 \<Rightarrow>
     (case global_Arrhenius gl of None \<Rightarrow> Inl NameError | Some arrhenius \<Rightarrow>
     (case global_C2H5 gl of None \<Rightarrow> Inl NameError | Some c2h5 \<Rightarrow>
     (case global_CH4 gl of None \<Rightarrow> Inl NameError | Some ch4 \<Rightarrow>
        Inr (s\<lparr>rxnList := rxnList s @ rxnList_sensitivity arrhenius c2h6 ch3 c2h5 ch4\<rparr>))))))"

text \<open>
  Lines 225-235 (and 293-303, 324-334): \<^verbatim>\<open>SimpleReactor(T, P, initialMoleFractions={...},
  termination=[])\<close> reads \<^verbatim>\<open>SimpleReactor\<close>, then \<^verbatim>\<open>P\<close>, then the keys of the
  dictionary; the new reactor is initialised with the local \<^verbatim>\<open>coreSpecies\<close> and the
  given core reactions.
\<close>

definition new_gas_reactor ::
  "'g module_globals \<Rightarrow> ('r, 'g) collaborators \<Rightarrow> species list \<Rightarrow> reaction list
    \<Rightarrow> py_exception + 'g" where
  "new_gas_reactor gl ext cs rxns =
     (case global_SimpleReactor gl of None \<Rightarrow> Inl NameError | Some simpleReactor \<Rightarrow>
     (case global_P gl of None \<Rightarrow> Inl NameError | Some p \<Rightarrow>
     (case gas_initialMoleFractions gl of Inl e \<Rightarrow> Inl e | Inr x0 \<Rightarrow>
     (case simpleReactor test_T p x0 [] of Inl e \<Rightarrow> Inl e | Inr g \<Rightarrow>
        ext_initializeModel_gas ext cs rxns edgeSpecies edgeReactions g))))"

text \<open>\<^verbatim>\<open>numpy.zeros(y.shape)\<close>.\<close>

definition zeros :: "nat \<Rightarrow> real list" where
  "zeros k = replicate k 0"

text \<open>Line 239: \<^verbatim>\<open>dN = .000001 * sum(rxnSystem0.y)\<close>.\<close>

definition perturbation_dN :: "real list \<Rightarrow> real" where
  "perturbation_dN y = 0.000001 * sum_list y"

text \<open>
  Lines 244-247, the body of the perturbation loop. The state is the array
  \<^verbatim>\<open>rxnSystem0.y\<close> and the list \<^verbatim>\<open>dydt\<close>: entry \<open>i\<close> is raised by \<open>dN\<close>, the
  residual is evaluated and appended, entry \<open>i\<close> is lowered by \<open>dN\<close> again.
\<close>

definition perturb_and_evaluate ::
  "('r, 'g) collaborators \<Rightarrow> 'g \<Rightarrow> real \<Rightarrow> nat \<Rightarrow> real list \<times> real list list
    \<Rightarrow> py_exception + (real list \<times> real list list)" where
  "perturb_and_evaluate ext g dN i st =
     (case st of (y, dydt) \<Rightarrow>
        if \<not> i < length y then Inl IndexError
        else
          (case ext_residual ext g 0.0 (y[i := y ! i + dN]) (zeros (length y)) of
             Inl e \<Rightarrow> Inl e
           | Inr res \<Rightarrow> Inr (y[i := y ! i + dN - dN], dydt @ [fst res])))"

text \<open>
  Line 255: \<^verbatim>\<open>jacobian[i, j] = (dydt[j][i] - dydt0[i]) / dN\<close>. A division by zero
  yields a non-finite value in numpy and \<open>0\<close> here; the properties below that rest on the
  quotient are stated for a nonzero divisor.
\<close>

definition fd_quotient :: "real list list \<Rightarrow> real list \<Rightarrow> real \<Rightarrow> nat \<Rightarrow> nat \<Rightarrow> py_exception + real" where
  "fd_quotient dydt dydt0 dN i j =
     (case getitem dydt (int j) of Inl e \<Rightarrow> Inl e | Inr col \<Rightarrow>
     (case getitem col (int i) of Inl e \<Rightarrow> Inl e | Inr a \<Rightarrow>
     (case getitem dydt0 (int i) of Inl e \<Rightarrow> Inl e | Inr b \<Rightarrow> Inr ((a - b) / dN))))"

text \<open>Lines 255-258: the comparison of one entry, with \<open>delta = abs(1e-4 * jacobian[i, j])\<close>.\<close>

definition jacobian_assertion_at ::
  "real list list \<Rightarrow> real list \<Rightarrow> real \<Rightarrow> real list list \<Rightarrow> nat \<times> nat \<Rightarrow> py_exception + unit" where
  "jacobian_assertion_at dydt dydt0 dN solverJacobian ij =
     (case ij of (i, j) \<Rightarrow>
     (case fd_quotient dydt dydt0 dN i j of Inl e \<Rightarrow> Inl e | Inr q \<Rightarrow>
     (case getitem2 solverJacobian (int i) (int j) of Inl e \<Rightarrow> Inl e | Inr sj \<Rightarrow>
        assertAlmostEqual q sj \<bar>1 / 10 ^ 4 * q\<bar>)))"

text \<open>
  Lines 221-258, the body of the loop over the ten reactions: line 221 binds
  \<^verbatim>\<open>coreSpecies\<close>, line 223 makes the reaction the only core reaction.
\<close>

definition jacobian_check_reaction ::
  "'g module_globals \<Rightarrow> ('r, 'g) collaborators \<Rightarrow> reaction \<Rightarrow> ('r, 'g) frame
    \<Rightarrow> py_exception + ('r, 'g) frame" where
  "jacobian_check_reaction gl ext rxn s =
     (case gas_coreSpecies gl of Inl e \<Rightarrow> Inl e | Inr cs \<Rightarrow>
     (case new_gas_reactor gl ext cs [rxn] of Inl e \<Rightarrow> Inl e | Inr g \<Rightarrow>
     (case ext_residual ext g 0.0 (ext_y_gas ext g) (zeros (length (ext_y_gas ext g))) of
        Inl e \<Rightarrow> Inl e | Inr res0 \<Rightarrow>
     (case for_each (perturb_and_evaluate ext g (perturbation_dN (ext_y_gas ext g)))
             [0..<numCoreSpecies] (ext_y_gas ext g, []) of
        Inl e \<Rightarrow> Inl e | Inr st \<Rightarrow>
     (case ext_jacobian ext g 0.0 (fst st) (fst res0) 0.0 of Inl e \<Rightarrow> Inl e | Inr solverJacobian \<Rightarrow>
     (case for_each
             (\<lambda>ij u. jacobian_assertion_at (snd st) (fst res0)
                        (perturbation_dN (ext_y_gas ext g)) solverJacobian ij)
             (List.product [0..<numCoreSpecies] [0..<numCoreSpecies]) () of
        Inl e \<Rightarrow> Inl e | Inr _ \<Rightarrow> Inr (s\<lparr>coreSpecies_gas := cs\<rparr>)))))))"

text \<open>Lines 220-258: \<^verbatim>\<open>for rxn in rxnList\<close>.\<close>

definition stmt_jacobian_unit_test ::
  "'g module_globals \<Rightarrow> ('r, 'g) collaborators \<Rightarrow> ('r, 'g) frame
    \<Rightarrow> py_exception + ('r, 'g) frame" where
  "stmt_jacobian_unit_test gl ext s = for_each (jacobian_check_reaction gl ext) (rxnList s) s"

text \<open>Line 310: \<^verbatim>\<open>integrationTime = 1e-8\<close>.\<close>

definition integrationTime :: real where
  "integrationTime = 1 / 10 ^ 8"

text \<open>
  Lines 289-312: \<^verbatim>\<open>coreSpecies\<close> is bound again, then the reference reactor of the
  sensitivity test is built from the whole list of reactions; its residual is
  \<^verbatim>\<open>dfdt0\<close>, the solver's \<^verbatim>\<open>computeRateDerivative()\<close> is \<^verbatim>\<open>solver_dfdk\<close>, and
  one simulation follows.
\<close>

definition stmt_sensitivity_setup ::
  "'g module_globals \<Rightarrow> ('r, 'g) collaborators \<Rightarrow> ('r, 'g) frame
    \<Rightarrow> py_exception + ('r, 'g) frame" where
  "stmt_sensitivity_setup gl ext s =
     (case gas_coreSpecies gl of Inl e \<Rightarrow> Inl e | Inr cs \<Rightarrow>
     (case new_gas_reactor gl ext cs (rxnList s) of Inl e \<Rightarrow> Inl e | Inr g \<Rightarrow>
     (case ext_residual ext g 0.0 (ext_y_gas ext g) (zeros (length (ext_y_gas ext g))) of
        Inl e \<Rightarrow> Inl e | Inr res0 \<Rightarrow>
     (case ext_computeRateDerivative ext g of Inl e \<Rightarrow> Inl e | Inr d \<Rightarrow>
     (case ext_simulate ext cs (rxnList s)
             (ext_termination_append ext (TerminationTime integrationTime) g) of
        Inl e \<Rightarrow> Inl e
      | Inr _ \<Rightarrow> Inr (s\<lparr>coreSpecies_gas := cs, dfdt0 := fst res0, solver_dfdk := d\<rparr>))))))"

text \<open>Line 316: \<^verbatim>\<open>dfdk = numpy.zeros((numCoreSpecies, len(rxnList)))\<close>.\<close>

definition stmt_dfdk_zeros :: "('r, 'g) frame \<Rightarrow> py_exception + ('r, 'g) frame" where
  "stmt_dfdk_zeros s = Inr (s\<lparr>dfdk := replicate numCoreSpecies (zeros (length (rxnList s)))\<rparr>)"

text \<open>
  Lines 320-321 and 344-345: the pre-exponential factor of a reaction is multiplied by
  \<open>1 + 1e-3\<close>, and divided by \<open>1 + 1e-3\<close>.
\<close>

definition perturb_A :: "reaction \<Rightarrow> reaction" where
  "perturb_A rxn =
     rxn\<lparr>kinetics := (kinetics rxn)\<lparr>A_value_si := A_value_si (kinetics rxn) * (1 + 0.001)\<rparr>\<rparr>"

definition reset_A :: "reaction \<Rightarrow> reaction" where
  "reset_A rxn =
     rxn\<lparr>kinetics := (kinetics rxn)\<lparr>A_value_si := A_value_si (kinetics rxn) / (1 + 0.001)\<rparr>\<rparr>"

text \<open>
  Line 338: \<^verbatim>\<open>dfdk[:, i] = (dfdt - dfdt0) / dk\<close>. Arrays of different lengths do not
  combine (broadcasting of one-element arrays is left out); for \<open>dk = 0\<close> see the remark
  on line 255.
\<close>

definition set_column :: "real list list \<Rightarrow> nat \<Rightarrow> real list \<Rightarrow> py_exception + real list list" where
  "set_column m j col =
     (if length col \<noteq> length m then Inl ValueError
      else if \<not> list_all (\<lambda>row. j < length row) m then Inl IndexError
      else Inr (map2 (\<lambda>row v. row[j := v]) m col))"

definition difference_quotient :: "real list \<Rightarrow> real list \<Rightarrow> real \<Rightarrow> py_exception + real list" where
  "difference_quotient dfdt dfdt_ref dk =
     (if length dfdt \<noteq> length dfdt_ref then Inl ValueError
      else Inr (map2 (\<lambda>a b. (a - b) / dk) dfdt dfdt_ref))"

text \<open>
  Lines 319-345, the body of the sensitivity loop for reaction \<open>i\<close>. Line 319,
  \<^verbatim>\<open>k0 = rxnList[i].getRateCoefficient(T, P)\<close>, takes element \<open>i\<close> of the list and
  then reads the global \<^verbatim>\<open>P\<close>; only after it do lines 320-321 multiply the factor.
  The reactions of \<^verbatim>\<open>rxnList\<close> are shared with \<^verbatim>\<open>coreReactions\<close> (line 291), so the
  new reactor of lines 324-334 is built from the list that holds the perturbed reaction.
  Lines 344-345 divide the factor again.
\<close>

definition sensitivity_iteration ::
  "'g module_globals \<Rightarrow> ('r, 'g) collaborators \<Rightarrow> nat \<Rightarrow> ('r, 'g) frame
    \<Rightarrow> py_exception + ('r, 'g) frame" where
  "sensitivity_iteration gl ext i s =
     (if \<not> i < length (rxnList s) then Inl IndexError
      else
        (case global_P gl of None \<Rightarrow> Inl NameError | Some p \<Rightarrow>
        (let k0 = ext_getRateCoefficient ext (rxnList s ! i) test_T p;
             perturbed = (rxnList s)[i := perturb_A (rxnList s ! i)];
             dk = ext_getRateCoefficient ext (perturbed ! i) test_T p - k0
         in
        (case new_gas_reactor gl ext (coreSpecies_gas s) perturbed of
           Inl e \<Rightarrow> Inl e | Inr g \<Rightarrow>
        (case ext_residual ext g 0.0 (ext_y_gas ext g) (zeros (length (ext_y_gas ext g))) of
           Inl e \<Rightarrow> Inl e | Inr res \<Rightarrow>
        (case difference_quotient (fst res) (dfdt0 s) dk of Inl e \<Rightarrow> Inl e | Inr col \<Rightarrow>
        (case set_column (dfdk s) i col of Inl e \<Rightarrow> Inl e | Inr dfdk' \<Rightarrow>
        (case ext_simulate ext (coreSpecies_gas s) perturbed
                (ext_termination_append ext (TerminationTime integrationTime) g) of
           Inl e \<Rightarrow> Inl e
         | Inr _ \<Rightarrow>
             Inr (s\<lparr>rxnList := perturbed[i := reset_A (perturbed ! i)], dfdk := dfdk'\<rparr>)))))))))"

text \<open>Lines 318-345: \<^verbatim>\<open>for i in range(len(rxnList))\<close>.\<close>

definition stmt_sensitivity_loop ::
  "'g module_globals \<Rightarrow> ('r, 'g) collaborators \<Rightarrow> ('r, 'g) frame
    \<Rightarrow> py_exception + ('r, 'g) frame" where
  "stmt_sensitivity_loop gl ext s =
     for_each (sensitivity_iteration gl ext) [0..<length (rxnList s)] s"

text \<open>Lines 347-350: the comparison with \<open>delta = abs(1e-3 * dfdk[i, j])\<close>.\<close>

definition sensitivity_assertion_at ::
  "real list list \<Rightarrow> real list list \<Rightarrow> nat \<times> nat \<Rightarrow> py_exception + unit" where
  "sensitivity_assertion_at fd solver ij =
     (case ij of (i, j) \<Rightarrow>
     (case getitem2 fd (int i) (int j) of Inl e \<Rightarrow> Inl e | Inr q \<Rightarrow>
     (case getitem2 solver (int i) (int j) of Inl e \<Rightarrow> Inl e | Inr d \<Rightarrow>
        assertAlmostEqual q d \<bar>1 / 10 ^ 3 * q\<bar>)))"

definition stmt_sensitivity_assertions :: "('r, 'g) frame \<Rightarrow> py_exception + ('r, 'g) frame" where
  "stmt_sensitivity_assertions s =
     (case for_each (\<lambda>ij u. sensitivity_assertion_at (dfdk s) (solver_dfdk s) ij)
             (List.product [0..<numCoreSpecies] [0..<length (rxnList s)]) () of
        Inl e \<Rightarrow> Inl e | Inr _ \<Rightarrow> Inr s)"

subsection \<open>The body of testSolve\<close>

text \<open>
  Each statement carries the source line where it starts. Lines 28-61 and 76 bind the
  constants \<open>rxn1\<close>, \<open>coreSpecies\<close>, \<open>tlist\<close> and so on, and line 136 binds \<open>H2\<close> again;
  they leave the modelled variables as they are. Global names are read from the module's
  globals as the file defines them.
\<close>

definition testSolve_body :: "('r, 'g) collaborators \<Rightarrow> (nat \<times> ('r, 'g) frame stmt) list" where
  "testSolve_body ext =
     [(28, Exec Inr),
      (65, Exec (stmt_SurfaceReactor ext)),
      (73, Exec (stmt_initializeModel ext)),
      (76, Exec Inr),
      (80, Exec (stmt_integrate ext)),
      (94, Exec (stmt_volume ext)),
      (101, Exec stmt_flux_assertions),
      (110, Exec stmt_equilibrium_assertion),
      (114, Exec (stmt_plot ext)),
      (130, ReturnNone),
      (136, Exec Inr),
      (144, Exec (\<lambda>s. Inr (s\<lparr>rxnList := []\<rparr>))),
      (145, Exec (stmt_rxnList_jacobian (surfaceTest_globals :: 'g module_globals))),
      (220, Exec (stmt_jacobian_unit_test surfaceTest_globals ext)),
      (266, Exec (\<lambda>s. Inr (s\<lparr>rxnList := []\<rparr>))),
      (267, Exec (stmt_rxnList_sensitivity (surfaceTest_globals :: 'g module_globals))),
      (289, Exec (stmt_sensitivity_setup surfaceTest_globals ext)),
      (316, Exec stmt_dfdk_zeros),
      (318, Exec (stmt_sensitivity_loop surfaceTest_globals ext)),
      (347, Exec stmt_sensitivity_assertions)]"

definition testSolve :: "('r, 'g) collaborators \<Rightarrow> nat list \<times> ('r, 'g) frame outcome" where
  "testSolve ext = exec_stmts (testSolve_body ext) empty_frame"

section \<open>The reactor engine, modelled from the specification\<close>

text \<open>
  The test calls the reactor engine (\<^verbatim>\<open>rmgpy.solver.surface\<close>, \<^verbatim>\<open>rmgpy.solver.base\<close>),
  whose code is not among the sources. The definitions of this section are written from the
  specification of the engine. All of them work on exact real numbers.
\<close>

text \<open>
  Modelled from the spec: the Species/Reaction Index and the fixed data of an initialised
  reactor (section 3), missing from the sources. Core species and core reactions are ordered
  sequences; \<open>k_forward\<close> and \<open>k_reverse\<close> hold the rate coefficients
  \<open>k_forward(j,T)\<close> and \<open>k_reverse(j,T)\<close> that the kinetics objects deliver for core
  reaction \<open>j\<close>, \<open>reversible\<close> its reversibility; \<open>conc_scale\<close> turns the amount of
  species \<open>i\<close> into its concentration or coverage, \<open>normalization\<close> is the
  volume or site-area normalization of section 4.2.
\<close>

record reactor_model =
  core_species :: "species list"
  core_reactions :: "reaction list"
  k_forward :: "real list"
  k_reverse :: "real list"
  reversible :: "bool list"
  conc_scale :: "real list"
  normalization :: "real list"

text \<open>
  Modelled from the spec: the index lookup of section 3 (each species has a stable integer
  index, its position in the sequence), missing from the sources.
\<close>

fun index_of :: "'a list \<Rightarrow> 'a \<Rightarrow> nat" where
  "index_of [] a = 0"
| "index_of (x # xs) a = (if x = a then 0 else Suc (index_of xs a))"

text \<open>
  Modelled from the spec: the concentration or coverage term of species \<open>i\<close> at state \<open>y\<close>
  (section 4.1), missing from the sources.
\<close>

definition concentration :: "reactor_model \<Rightarrow> real list \<Rightarrow> nat \<Rightarrow> real" where
  "concentration m y i = y ! i * conc_scale m ! i"

text \<open>
  Modelled from the spec: the product of the concentration/coverage terms of one side of a
  reaction (section 4.1); a species listed twice enters twice. Missing from the sources.
\<close>

definition concentration_product :: "reactor_model \<Rightarrow> real list \<Rightarrow> species list \<Rightarrow> real" where
  "concentration_product m y sps =
     prod_list (map (\<lambda>sp. concentration m y (index_of (core_species m) sp)) sps)"

text \<open>
  Modelled from the spec: the net rate of core reaction \<open>j\<close> (section 4.1),
  \<open>k_forward \<times> \<Prod>(reactants) - k_reverse \<times> \<Prod>(products)\<close> if reversible, else the
  forward term only. Missing from the sources.
\<close>

definition net_rate :: "reactor_model \<Rightarrow> real list \<Rightarrow> nat \<Rightarrow> real" where
  "net_rate m y j =
     k_forward m ! j * concentration_product m y (reactants (core_reactions m ! j))
     - (if reversible m ! j
        then k_reverse m ! j * concentration_product m y (products (core_reactions m ! j))
        else 0)"

text \<open>
  Modelled from the spec: \<open>stoich(j,i)\<close>, the moles of species \<open>i\<close> produced minus those
  consumed per extent of reaction \<open>j\<close> (section 4.1). Missing from the sources.
\<close>

definition stoich :: "reactor_model \<Rightarrow> nat \<Rightarrow> nat \<Rightarrow> int" where
  "stoich m j i =
     int (count_list (products (core_reactions m ! j)) (core_species m ! i))
     - int (count_list (reactants (core_reactions m ! j)) (core_species m ! i))"

text \<open>
  Modelled from the spec: the Rate Evaluator's sequence of net reaction rates (section 4.1),
  the value cached as \<^verbatim>\<open>coreReactionRates\<close>. Missing from the sources.
\<close>

definition coreReactionRates :: "reactor_model \<Rightarrow> real list \<Rightarrow> real list" where
  "coreReactionRates m y = map (net_rate m y) [0..<length (core_reactions m)]"

text \<open>
  Modelled from the spec: the net production rate of species \<open>i\<close>, the sum over the core
  reactions of \<open>stoich(j,i) \<times> reactionRate[j]\<close> (section 4.1). Missing from the sources.
\<close>

definition species_rate :: "reactor_model \<Rightarrow> real list \<Rightarrow> nat \<Rightarrow> real" where
  "species_rate m y i =
     sum_list (map (\<lambda>j. real_of_int (stoich m j i) * net_rate m y j)
       [0..<length (core_reactions m)])"

text \<open>
  Modelled from the spec: the Rate Evaluator's sequence of species production rates
  (section 4.1), the value cached as \<^verbatim>\<open>coreSpeciesRates\<close>. Missing from the sources.
\<close>

definition coreSpeciesRates :: "reactor_model \<Rightarrow> real list \<Rightarrow> real list" where
  "coreSpeciesRates m y = map (species_rate m y) [0..<length (core_species m)]"

text \<open>
  Modelled from the spec: the Residual Function (section 4.2),
  \<open>F[i] = dydt[i] - speciesRate[i] \<times> normalization[i]\<close> for every entry of \<open>y\<close>, with a
  flag (\<open>1\<close> for success; real arithmetic has no non-finite value). Missing from the sources.
\<close>

definition residual :: "reactor_model \<Rightarrow> real \<Rightarrow> real list \<Rightarrow> real list \<Rightarrow> real list \<times> int" where
  "residual m t y dydt =
     (map (\<lambda>i. dydt ! i - coreSpeciesRates m y ! i * normalization m ! i) [0..<length y], 1)"

text \<open>
  Modelled from the spec: the derivative of a concentration product with respect to \<open>y[k]\<close>
  by the product rule (section 4.3). Missing from the sources.
\<close>

fun d_concentration_product :: "reactor_model \<Rightarrow> real list \<Rightarrow> species list \<Rightarrow> nat \<Rightarrow> real" where
  "d_concentration_product m y [] k = 0"
| "d_concentration_product m y (sp # sps) k =
     (if index_of (core_species m) sp = k then conc_scale m ! k else 0)
       * concentration_product m y sps
     + concentration m y (index_of (core_species m) sp) * d_concentration_product m y sps k"

text \<open>
  Modelled from the spec: the derivative of the net rate of reaction \<open>j\<close> with respect to
  \<open>y[k]\<close> (section 4.3). Missing from the sources.
\<close>

definition d_net_rate :: "reactor_model \<Rightarrow> real list \<Rightarrow> nat \<Rightarrow> nat \<Rightarrow> real" where
  "d_net_rate m y j k =
     k_forward m ! j * d_concentration_product m y (reactants (core_reactions m ! j)) k
     - (if reversible m ! j
        then k_reverse m ! j * d_concentration_product m y (products (core_reactions m ! j)) k
        else 0)"

text \<open>
  Modelled from the spec: the derivative of the production rate of species \<open>i\<close> with respect
  to \<open>y[k]\<close>, accumulated over the reactions (section 4.3). Missing from the sources.
\<close>

definition d_species_rate :: "reactor_model \<Rightarrow> real list \<Rightarrow> nat \<Rightarrow> nat \<Rightarrow> real" where
  "d_species_rate m y i k =
     sum_list (map (\<lambda>j. real_of_int (stoich m j i) * d_net_rate m y j k)
       [0..<length (core_reactions m)])"

text \<open>
  Modelled from the spec: the Analytic Jacobian (section 4.3),
  \<open>J[i][k] = \<partial>F[i]/\<partial>y[k] + coefficient \<times> \<partial>F[i]/\<partial>dydt[k]\<close>, the second term being the
  coefficient on the diagonal. Missing from the sources.
\<close>

definition jacobian :: "reactor_model \<Rightarrow> real \<Rightarrow> real list \<Rightarrow> real list \<Rightarrow> real \<Rightarrow> real list list" where
  "jacobian m t y dydt cj =
     map (\<lambda>i. map (\<lambda>k. (if i = k then cj else 0) - d_species_rate m y i k * normalization m ! i)
                [0..<length y])
         [0..<length y]"

text \<open>
  Modelled from the spec: the Sensitivity Module (section 4.4),
  \<open>D[i][j] = stoich(j,i) \<times> \<Prod>(concentration/coverage terms for reaction j)\<close>, the
  concentration product of the forward rate evaluation, at the current state \<open>y\<close>.
  Missing from the sources.
\<close>

definition computeRateDerivative :: "reactor_model \<Rightarrow> real list \<Rightarrow> real list list" where
  "computeRateDerivative m y =
     map (\<lambda>i. map (\<lambda>j. real_of_int (stoich m j i)
                      * concentration_product m y (reactants (core_reactions m ! j)))
                [0..<length (core_reactions m)])
         [0..<length (core_species m)]"

text \<open>
  Modelled from the spec: the perturbation of the sensitivity check (section 8), the rate
  coefficient of reaction \<open>j\<close> raised by the relative amount \<open>1e-3\<close> as in lines 320-321
  of the test; every other input of the Rate Evaluator, the reverse coefficient included, is
  left as it is. Missing from the sources.
\<close>

definition perturb_k :: "reactor_model \<Rightarrow> nat \<Rightarrow> reactor_model" where
  "perturb_k m j = m\<lparr>k_forward := (k_forward m)[j := k_forward m ! j * (1 + 0.001)]\<rparr>"

text \<open>
  Modelled from the spec: the same perturbation where the reverse coefficient is derived from
  the forward one through the equilibrium constant (section 6, reverse rates derived from
  equilibrium), so that raising the pre-exponential factor raises both by the same factor.
  Missing from the sources.
\<close>

definition perturb_k_both :: "reactor_model \<Rightarrow> nat \<Rightarrow> reactor_model" where
  "perturb_k_both m j =
     m\<lparr>k_forward := (k_forward m)[j := k_forward m ! j * (1 + 0.001)],
       k_reverse := (k_reverse m)[j := k_reverse m ! j * (1 + 0.001)]\<rparr>"

text \<open>
  Modelled from the spec: the reactor that \<^verbatim>\<open>initializeModel\<close> builds for the arguments
  of the test (lines 58-74): core species \<open>[H2, X, HX]\<close>, the one core reaction \<open>rxn1\<close>.
  The two rate coefficients, the reversibility and the two scalings come from collaborators
  that are not among the sources and are parameters.
\<close>

definition surface_model :: "real \<Rightarrow> real \<Rightarrow> bool \<Rightarrow> real list \<Rightarrow> real list \<Rightarrow> reactor_model" where
  "surface_model kf kr rv scale nrm =
     \<lparr>core_species = coreSpecies, core_reactions = coreReactions, k_forward = [kf],
      k_reverse = [kr], reversible = [rv], conc_scale = scale, normalization = nrm\<rparr>"

text \<open>
  The finite-difference check of the Jacobian test (lines 236-258) applied to the modelled
  engine: the residuals at the states perturbed by \<open>dN\<close> in one entry, and the comparison of
  entry \<open>(i, k)\<close> of the difference quotient with the analytic Jacobian.
\<close>

definition perturbed_residuals :: "reactor_model \<Rightarrow> real list \<Rightarrow> real list list" where
  "perturbed_residuals m y =
     map (\<lambda>k. fst (residual m 0 (y[k := y ! k + perturbation_dN y]) (zeros (length y))))
       [0..<length y]"

definition fd_jacobian_check :: "reactor_model \<Rightarrow> real list \<Rightarrow> nat \<Rightarrow> nat \<Rightarrow> py_exception + unit" where
  "fd_jacobian_check m y i k =
     jacobian_assertion_at (perturbed_residuals m y) (fst (residual m 0 y (zeros (length y))))
       (perturbation_dN y)
       (jacobian m 0 y (fst (residual m 0 y (zeros (length y)))) 0) (i, k)"

text \<open>
  The number of times the species with index \<open>k\<close> occurs on one side of a reaction, and the
  states of affairs in which every core reaction is of order at most one in that species on
  either side.
\<close>

definition occurrences :: "reactor_model \<Rightarrow> species list \<Rightarrow> nat \<Rightarrow> nat" where
  "occurrences m sps k = count_list (map (index_of (core_species m)) sps) k"

definition first_order_in :: "reactor_model \<Rightarrow> nat \<Rightarrow> bool" where
  "first_order_in m k =
     list_all (\<lambda>r. occurrences m (reactants r) k \<le> 1 \<and> occurrences m (products r) k \<le> 1)
       (core_reactions m)"

text \<open>
  A rate term of order \<open>a\<close> in species \<open>k\<close> is a multiple of \<open>y[k]^a\<close>, and the
  forward difference of \<open>y[k]^a\<close> over \<open>\<delta>\<close> exceeds the derivative
  \<open>a \<times> y[k]^(a-1)\<close> by the relative amount of about \<open>(a - 1) \<times> \<delta> / (2 \<times> y[k])\<close>.
  A state resolves the order \<open>a\<close> in species \<open>k\<close> when \<open>a\<close> is at most one or the
  amount \<open>y[k]\<close> is at least \<open>5000.5 \<times> (a - 1)\<close> times the perturbation
  \<open>\<delta> = 1e-6 \<times> \<Sum>y\<close> of line 239, that is about \<open>(a - 1) / 2\<close> per cent of the total
  amount; that keeps the excess within \<open>1e-4\<close>. It resolves species \<open>k\<close> when it resolves
  the order of \<open>k\<close> among the reactants of every core reaction and among the products of
  every reversible one.
\<close>

definition order_resolved :: "real list \<Rightarrow> nat \<Rightarrow> nat \<Rightarrow> bool" where
  "order_resolved y k a =
     (a \<le> 1 \<or> 10001 * (real (a - 1) * perturbation_dN y) \<le> 2 * y ! k)"

definition resolved_in :: "reactor_model \<Rightarrow> real list \<Rightarrow> nat \<Rightarrow> bool" where
  "resolved_in m y k =
     list_all
       (\<lambda>j. order_resolved y k (occurrences m (reactants (core_reactions m ! j)) k)
          \<and> (if reversible m ! j
             then order_resolved y k (occurrences m (products (core_reactions m ! j)) k)
             else True))
       [0..<length (core_reactions m)]"

text \<open>
  The contributions to the derivative of the production rate of species \<open>i\<close> with respect
  to \<open>y[k]\<close>, reaction by reaction: the forward term, then the reverse term (which is
  \<open>0\<close> for an irreversible reaction). Their sum is \<open>d_species_rate m y i k\<close>. They have
  the same sign when none is negative or none is positive.
\<close>

definition jacobian_terms :: "reactor_model \<Rightarrow> real list \<Rightarrow> nat \<Rightarrow> nat \<Rightarrow> real list" where
  "jacobian_terms m y i k =
     concat (map
       (\<lambda>j. [real_of_int (stoich m j i)
                * (k_forward m ! j * d_concentration_product m y (reactants (core_reactions m ! j)) k),
              - (real_of_int (stoich m j i)
                * (if reversible m ! j
                   then k_reverse m ! j
                     * d_concentration_product m y (products (core_reactions m ! j)) k
                   else 0))])
       [0..<length (core_reactions m)])"

definition same_sign :: "real list \<Rightarrow> bool" where
  "same_sign ts = (list_all (\<lambda>t. 0 \<le> t) ts \<or> list_all (\<lambda>t. t \<le> 0) ts)"

section \<open>Example environments\<close>

text \<open>
  Collaborators that never raise: the reactor rests at zero rates, the gas-phase residual is
  the negated derivative. They serve to run the definitions on concrete inputs.
\<close>

definition quiet_ext :: "(unit, unit) collaborators" where
  "quiet_ext = \<lparr>
     ext_SurfaceReactor = (\<lambda>c. Inr ()),
     ext_initializeModel = (\<lambda>cs cr es er r. Inr r),
     ext_advance = (\<lambda>t1 r. Inr r),
     ext_t = (\<lambda>r. 0),
     ext_y = (\<lambda>r. [0, 0, 0]),
     ext_coreReactionRates = (\<lambda>r. [0]),
     ext_coreSpeciesRates = (\<lambda>r. [0, 0, 0]),
     ext_T_value_si = (\<lambda>r. 1000),
     ext_initialP_value_si = (\<lambda>r. 100000),
     ext_R = 8.314472,
     ext_pylab = (\<lambda>t y sr. Inr ()),
     ext_initializeModel_gas = (\<lambda>cs cr es er g. Inr g),
     ext_y_gas = (\<lambda>g. [0.2, 0.1, 0.35, 0.15, 0.2]),
     ext_residual = (\<lambda>g t y dydt. Inr (map uminus dydt, 1)),
     ext_jacobian = (\<lambda>g t y dydt c. Inr (replicate 5 (replicate 5 0))),
     ext_computeRateDerivative = (\<lambda>g. Inr (replicate 5 (replicate 3 0))),
     ext_termination_append = (\<lambda>c g. g),
     ext_simulate = (\<lambda>cs cr g. Inr g),
     ext_getRateCoefficient = (\<lambda>rxn T P. A_value_si (kinetics rxn))\<rparr>"

text \<open>The same collaborators on a machine where \<^verbatim>\<open>import pylab\<close> fails (line 114).\<close>

definition no_pylab_ext :: "(unit, unit) collaborators" where
  "no_pylab_ext = quiet_ext\<lparr>ext_pylab := (\<lambda>t y sr. Inl ImportError)\<rparr>"

text \<open>
  For comparison, globals in which the seven names are bound, as in a module that had
  imported the gas-phase classes and defined the four species and a pressure: the kinetics
  constructor takes \<open>A\<close> in SI units, \<open>Ea\<close> in kcal/mol and \<open>T0\<close> in K, the reactor
  class never raises.
\<close>

definition Arrhenius :: "real \<Rightarrow> real \<Rightarrow> real \<Rightarrow> real \<Rightarrow> kinetics" where
  "Arrhenius a n ea t0 =
     \<lparr>A_value_si = a, n_exponent = n, Ea_value_si = ea * 4184, T0_value_si = t0\<rparr>"

definition bound_globals :: "unit module_globals" where
  "bound_globals = \<lparr>global_C2H6 = Some C2H6, global_CH3 = Some CH3, global_CH4 = Some CH4,
     global_C2H5 = Some C2H5, global_Arrhenius = Some Arrhenius,
     global_SimpleReactor = Some (\<lambda>T P x term. Inr ()), global_P = Some 100000\<rparr>"

text \<open>The locals at the head of the sensitivity loop: three reactions, five species.\<close>

definition sens_frame :: "(unit, unit) frame" where
  "sens_frame = empty_frame\<lparr>rxnList := rxnList_sensitivity Arrhenius C2H6 CH3 C2H5 CH4,
      coreSpecies_gas := [CH4, CH3, C2H6, C2H5, H2], dfdt0 := zeros 5,
      dfdk := replicate 5 (zeros 3)\<rparr>"

text \<open>
  A state of the model reaction with all sites vacant: unit amounts of \<open>H2\<close> and \<open>X\<close>, no
  \<open>HX\<close>, unit coefficients and scalings.
\<close>

definition unit_model :: reactor_model where
  "unit_model = surface_model 1 1 True [1, 1, 1] [1, 1, 1]"

definition vacant_state :: "real list" where
  "vacant_state = [1, 1, 0]"

text \<open>A state of the same model with unit amounts of all three species.\<close>

definition balanced_state :: "real list" where
  "balanced_state = [1, 1, 1]"

text \<open>
  A gas-phase reactor over the five species of line 221 whose core reactions are the second
  and the third reaction of the Jacobian test, \<open>2 CH3 \<rightleftharpoons> C2H6\<close> (lines 151-157) and
  \<open>C2H6 + CH3 \<rightleftharpoons> C2H5 + CH4\<close> (lines 159-165), with unit coefficients and scalings, and a
  state of it in which every species holds at least a sixth of the total amount.
\<close>

definition gas_model :: reactor_model where
  "gas_model =
     \<lparr>core_species = [CH4, CH3, C2H6, C2H5, H2],
      core_reactions = take 2 (drop 1 (rxnList_jacobian Arrhenius C2H6 CH3 C2H5 CH4)),
      k_forward = [1, 1], k_reverse = [1, 1], reversible = [True, True],
      conc_scale = [1, 1, 1, 1, 1], normalization = [1, 1, 1, 1, 1]\<rparr>"

definition crossing_state :: "real list" where
  "crossing_state = [1, 1, 2, 1, 1]"

section \<open>Properties\<close>

subsection \<open>The sampling grid\<close>

lemma py_range_nonempty: "a < b \<Longrightarrow> py_range a b \<noteq> []"
  by (simp add: py_range_def)

lemma py_range_hd: "a < b \<Longrightarrow> hd (py_range a b) = a"
  by (simp add: py_range_def upto_rec1)

lemma py_range_last: "a < b \<Longrightarrow> last (py_range a b) = b - 1"
  by (simp add: py_range_def upto_rec2)

lemma py_range_length: "length (py_range a b) = nat (b - a)"
  by (simp add: py_range_def)

lemma tlist_hd: "hd tlist = 10 powr (-13)"
  by (simp add: tlist_def hd_map py_range_nonempty py_range_hd)

lemma tlist_last: "last tlist = 10 powr (-5)"
  by (simp add: tlist_def last_map py_range_nonempty py_range_last)

lemma tlist_length: "length tlist = 81"
  by (simp add: tlist_def py_range_length)

lemma ten_powr_neq: "(10::real) powr (-5) \<noteq> 10 powr (-5.1)"
  by (simp add: powr_inj)

text \<open>
  Claim C5, as stated: the target times passed to \<^verbatim>\<open>advance\<close> run from \<open>10^-13\<close> up to
  and including a final sampled time of \<open>10^-5.1\<close>. The last element of the grid is
  \<open>10^-5.0\<close>, because \<^verbatim>\<open>range(-130, -49)\<close> ends at \<open>-50\<close>; the statement is false.
\<close>

theorem tlist_final_not_5_1:
  "\<not> (hd tlist = 10 powr (-13) \<and> last tlist = 10 powr (-5.1))"
  using ten_powr_neq by (simp add: tlist_last)

text \<open>
  Claim C5, amended: the grid of target times has 81 entries, starts at \<open>10^-13\<close> and ends
  at \<open>10^-5.0\<close>; the time \<open>10^-5.1\<close> is the last but one.
\<close>

theorem tlist_first_last:
  "length tlist = 81 \<and> hd tlist = 10 powr (-13) \<and> last tlist = 10 powr (-5)
    \<and> tlist ! 79 = 10 powr (-5.1)"
proof -
  have "(79::nat) < length (py_range (-130) (-49))"
    by (simp add: py_range_length)
  then have "tlist ! 79 = 10 powr (real_of_int (py_range (-130) (-49) ! 79) / 10.0)"
    by (simp add: tlist_def)
  moreover have "py_range (-130) (-49) ! 79 = -51"
    by (simp add: py_range_def)
  ultimately have "tlist ! 79 = 10 powr (-5.1)"
    by simp
  then show ?thesis
    by (simp add: tlist_length tlist_hd tlist_last)
qed

subsection \<open>Control flow of testSolve\<close>

lemma exec_stmts_before_return:
  assumes "list_all (\<lambda>c. snd c \<noteq> ReturnNone) pre"
    and "exec_stmts (pre @ (l, ReturnNone) # post) s = (tr, out)"
  shows "(\<exists>s'. out = Returned s' \<and> tr = map fst pre @ [l])
       \<or> (\<exists>e. out = Raised e \<and> tr \<noteq> [] \<and> set tr \<subseteq> set (map fst pre))"
  using assms
proof (induction pre arbitrary: s tr out)
  case Nil
  then show ?case by auto
next
  case (Cons c pre)
  obtain l0 st where c: "c = (l0, st)" by (cases c)
  from Cons.prems(1) c obtain f where st: "st = Exec f" by (cases st) auto
  show ?case
  proof (cases "f s")
    case (Inl e)
    with Cons.prems(2) c st show ?thesis by auto
  next
    case (Inr s1)
    obtain tr1 out1 where rest: "exec_stmts (pre @ (l, ReturnNone) # post) s1 = (tr1, out1)"
      by (cases "exec_stmts (pre @ (l, ReturnNone) # post) s1")
    from Cons.prems(1) have "list_all (\<lambda>c. snd c \<noteq> ReturnNone) pre" by simp
    from Cons.IH[OF this rest] Cons.prems(2) c st Inr rest show ?thesis by auto
  qed
qed

lemma testSolve_body_split:
  "testSolve_body ext
     = take 9 (testSolve_body ext) @ (130, ReturnNone) # drop 10 (testSolve_body ext)"
  by (simp add: testSolve_body_def)

lemma before_return_no_return:
  "list_all (\<lambda>c. snd c \<noteq> ReturnNone) (take 9 (testSolve_body ext))"
  by (simp add: testSolve_body_def)

lemma before_return_lines:
  "map fst (take 9 (testSolve_body ext)) = [28, 65, 73, 76, 80, 94, 101, 110, 114]"
  by (simp add: testSolve_body_def)

text \<open>
  Claim C9, amended: whatever the collaborators do, no statement of \<^verbatim>\<open>testSolve\<close>
  after the unconditional \<^verbatim>\<open>return\<close> on line 130 is ever started, the finite-difference
  Jacobian comparison (lines 220-258) and the sensitivity comparison (lines 347-350)
  included; the method never runs off its end; an execution in which no statement of lines
  28-127 raises returns at line 130, after the flux and equilibrium assertions and the plot,
  and an execution in which one raises ends at that statement.
\<close>

theorem testSolve_stops_at_return:
  "list_all (\<lambda>l. l \<le> 130) (fst (testSolve ext)) \<and>
   (case snd (testSolve ext) of
      Returned s \<Rightarrow> fst (testSolve ext) = [28, 65, 73, 76, 80, 94, 101, 110, 114, 130]
    | Raised e \<Rightarrow> fst (testSolve ext) \<noteq> [] \<and> last (fst (testSolve ext)) < 130
    | FellThrough s \<Rightarrow> False)"
proof -
  obtain tr out where run: "testSolve ext = (tr, out)"
    by (cases "testSolve ext")
  then have "exec_stmts (take 9 (testSolve_body ext) @ (130, ReturnNone)
      # drop 10 (testSolve_body ext)) empty_frame = (tr, out)"
    using testSolve_body_split[of ext] by (simp add: testSolve_def)
  from exec_stmts_before_return[OF before_return_no_return this]
  consider (ret) s' where "out = Returned s'" "tr = [28, 65, 73, 76, 80, 94, 101, 110, 114, 130]"
    | (exc) e where "out = Raised e" "tr \<noteq> []" "set tr \<subseteq> {28, 65, 73, 76, 80, 94, 101, 110, 114}"
    by (auto simp: before_return_lines)
  then show ?thesis
  proof cases
    case ret
    with run show ?thesis by simp
  next
    case exc
    from exc(3) have all: "\<forall>l \<in> set tr. l < 130" by auto
    then have "list_all (\<lambda>l. l \<le> 130) tr"
      by (auto simp: list_all_iff)
    moreover from exc(2) all have "last tr < 130"
      using last_in_set by blast
    ultimately show ?thesis using run exc by simp
  qed
qed

lemma upto_unfold: "[i..j] = (if i \<le> j then i # [i + 1..j] else [])"
  by (simp add: upto_rec1)

lemma quiet_run: "snd (testSolve quiet_ext) \<noteq> Raised e"
  by (simp add: testSolve_def testSolve_body_def stmt_SurfaceReactor_def stmt_initializeModel_def
     stmt_volume_def stmt_flux_assertions_def stmt_equilibrium_assertion_def stmt_plot_def
     flux_assertions_at_def getitem2_def getitem_def assertAlmostEqual_def
     stmt_integrate_def tlist_def py_range_def quiet_ext_def empty_frame_def
     advance_and_record_def upto_unfold)

text \<open>
  Claim C9, amended, on a concrete run: with collaborators that never raise and a reactor at
  rest the statements started are exactly those up to the \<^verbatim>\<open>return\<close> on line 130.
\<close>

theorem testSolve_quiet_run:
  "fst (testSolve quiet_ext) = [28, 65, 73, 76, 80, 94, 101, 110, 114, 130]"
  using testSolve_stops_at_return[of quiet_ext] quiet_run
  by (cases "snd (testSolve quiet_ext)") auto

text \<open>
  Claim C9, as stated: every execution of \<^verbatim>\<open>testSolve\<close> returns at the \<^verbatim>\<open>return\<close>
  statement on line 130. An execution in which a statement before line 130 raises does not:
  where \<^verbatim>\<open>import pylab\<close> fails, the method ends at line 114 with the exception and
  line 130 is not reached.
\<close>

theorem testSolve_raises_before_return:
  "testSolve no_pylab_ext = ([28, 65, 73, 76, 80, 94, 101, 110, 114], Raised ImportError)"
  by (simp add: testSolve_def testSolve_body_def stmt_SurfaceReactor_def stmt_initializeModel_def
     stmt_volume_def stmt_flux_assertions_def stmt_equilibrium_assertion_def stmt_plot_def
     flux_assertions_at_def getitem2_def getitem_def assertAlmostEqual_def
     stmt_integrate_def tlist_def py_range_def no_pylab_ext_def quiet_ext_def empty_frame_def
     advance_and_record_def upto_unfold)

subsection \<open>The sensitivity loop\<close>

lemma reset_perturb: "reset_A (perturb_A rxn) = rxn"
  by (simp add: reset_A_def perturb_A_def)

text \<open>
  What the body of the loop does in globals that let it run to its end: the reactor whose
  residual enters the quotient is built from the list that holds reaction \<open>i\<close> with its
  factor multiplied, the divisor is the change of the rate coefficient under that
  multiplication, the quotient is stored as column \<open>i\<close>, and the list is left with the
  factor divided again, which over the reals is the list the iteration started from.
\<close>

lemma sensitivity_iteration_steps:
  assumes "sensitivity_iteration gl ext i s = Inr s'"
  shows "\<exists>p g res col.
           i < length (rxnList s) \<and> global_P gl = Some p
         \<and> new_gas_reactor gl ext (coreSpecies_gas s) ((rxnList s)[i := perturb_A (rxnList s ! i)])
             = Inr g
         \<and> ext_residual ext g 0.0 (ext_y_gas ext g) (zeros (length (ext_y_gas ext g))) = Inr res
         \<and> difference_quotient (fst res) (dfdt0 s)
              (ext_getRateCoefficient ext (perturb_A (rxnList s ! i)) test_T p
                - ext_getRateCoefficient ext (rxnList s ! i) test_T p) = Inr col
         \<and> set_column (dfdk s) i col = Inr (dfdk s')
         \<and> rxnList s' = (rxnList s)[i := reset_A (perturb_A (rxnList s ! i))]"
  using assms
  by (auto simp: sensitivity_iteration_def Let_def split: if_splits option.splits sum.splits)

lemma sensitivity_iteration_rxnList:
  assumes "sensitivity_iteration gl ext i s = Inr s'"
  shows "rxnList s' = rxnList s"
  using sensitivity_iteration_steps[OF assms] by (auto simp: reset_perturb)

lemma for_each_preserves:
  assumes "\<And>x s s'. body x s = Inr s' \<Longrightarrow> f s' = f s"
  shows "for_each body xs s = Inr s' \<Longrightarrow> f s' = f s"
proof (induction xs arbitrary: s)
  case Nil
  then show ?case by simp
next
  case (Cons x xs)
  then show ?case using assms by (auto split: sum.splits)
qed

lemma sensitivity_loop_rxnList:
  "stmt_sensitivity_loop gl ext s = Inr s' \<Longrightarrow> rxnList s' = rxnList s"
  unfolding stmt_sensitivity_loop_def
  by (rule for_each_preserves[where f = rxnList and body = "sensitivity_iteration gl ext"])
     (auto dest: sensitivity_iteration_rxnList)

lemma sens_iteration_runs:
  "sensitivity_iteration bound_globals quiet_ext 0 sens_frame = Inr sens_frame"
  by (simp add: sensitivity_iteration_def sens_frame_def quiet_ext_def empty_frame_def
      bound_globals_def rxnList_sensitivity_def new_gas_reactor_def gas_initialMoleFractions_def
      zeros_def difference_quotient_def set_column_def Let_def list_all_iff reset_A_def
      perturb_A_def Arrhenius_def eval_nat_numeral)

text \<open>
  The statements after the \<^verbatim>\<open>return\<close>, run from any values of the locals in the
  globals of the file: line 145 reads \<^verbatim>\<open>C2H6\<close> and ends the run.
\<close>

lemma after_return_raises:
  "exec_stmts (drop 10 (testSolve_body ext)) s = ([136, 144, 145], Raised NameError)"
  by (simp add: testSolve_body_def stmt_rxnList_jacobian_def surfaceTest_globals_def)


subsection \<open>Flux consistency of the model reaction\<close>

lemma surface_reaction_rates:
  "coreReactionRates (surface_model kf kr rv scale nrm) y
     = [net_rate (surface_model kf kr rv scale nrm) y 0]"
  by (simp add: coreReactionRates_def surface_model_def coreReactions_def)

lemma surface_species_rates:
  "coreSpeciesRates (surface_model kf kr rv scale nrm) y =
     [- net_rate (surface_model kf kr rv scale nrm) y 0,
      - 2 * net_rate (surface_model kf kr rv scale nrm) y 0,
      2 * net_rate (surface_model kf kr rv scale nrm) y 0]"
  by (simp add: coreSpeciesRates_def species_rate_def stoich_def surface_model_def
      coreReactions_def coreSpecies_def rxn1_def upt_rec[of 0] upt_rec[of 1] upt_rec[of 2])

lemma flux_assertions_pass:
  assumes "i < length ys"
  shows "flux_assertions_at (map (\<lambda>y. [r y]) ys) (map (\<lambda>y. [- r y, - 2 * r y, 2 * r y]) ys)
           (int i) = Inr ()"
  using assms
  by (simp add: flux_assertions_at_def getitem2_def getitem_def assertAlmostEqual_def)

text \<open>
  Claim C1: for the model reaction \<open>H2 + 2X \<rightleftharpoons> 2HX\<close> (core species \<open>[H2, X, HX]\<close>), at
  every sampled state the net reaction rate equals minus the production rate of \<open>H2\<close>,
  minus one half the production rate of \<open>X\<close> and one half the production rate of \<open>HX\<close>;
  the equalities are exact, so the three assertions of lines 102-107 (tolerance
  \<open>1e-6\<close> times the rate) pass at every sample. \<open>ys\<close> are the states at which the rates
  are evaluated; rate coefficients, reversibility and scalings are arbitrary.
\<close>

theorem flux_consistency:
  "list_all
     (\<lambda>i. map (coreReactionRates (surface_model kf kr rv scale nrm)) ys ! i ! 0
            = - (map (coreSpeciesRates (surface_model kf kr rv scale nrm)) ys ! i ! 0)
         \<and> map (coreReactionRates (surface_model kf kr rv scale nrm)) ys ! i ! 0
            = - 0.5 * (map (coreSpeciesRates (surface_model kf kr rv scale nrm)) ys ! i ! 1)
         \<and> map (coreReactionRates (surface_model kf kr rv scale nrm)) ys ! i ! 0
            = 0.5 * (map (coreSpeciesRates (surface_model kf kr rv scale nrm)) ys ! i ! 2)
         \<and> flux_assertions_at (map (coreReactionRates (surface_model kf kr rv scale nrm)) ys)
              (map (coreSpeciesRates (surface_model kf kr rv scale nrm)) ys) (int i) = Inr ())
     [0..<length ys]"
proof -
  let ?m = "surface_model kf kr rv scale nrm"
  have rr: "map (coreReactionRates ?m) ys = map (\<lambda>y. [net_rate ?m y 0]) ys"
    by (simp add: surface_reaction_rates)
  have sr: "map (coreSpeciesRates ?m) ys
      = map (\<lambda>y. [- net_rate ?m y 0, - 2 * net_rate ?m y 0, 2 * net_rate ?m y 0]) ys"
    by (simp add: surface_species_rates)
  show ?thesis
    unfolding rr sr list_all_iff
  proof
    fix i assume "i \<in> set [0..<length ys]"
    then have i: "i < length ys" by simp
    from flux_assertions_pass[OF i, of "\<lambda>y. net_rate ?m y 0"] i
    show "map (\<lambda>y. [net_rate ?m y 0]) ys ! i ! 0
            = - (map (\<lambda>y. [- net_rate ?m y 0, - 2 * net_rate ?m y 0, 2 * net_rate ?m y 0]) ys ! i ! 0)
         \<and> map (\<lambda>y. [net_rate ?m y 0]) ys ! i ! 0
            = - 0.5 * (map (\<lambda>y. [- net_rate ?m y 0, - 2 * net_rate ?m y 0, 2 * net_rate ?m y 0]) ys ! i ! 1)
         \<and> map (\<lambda>y. [net_rate ?m y 0]) ys ! i ! 0
            = 0.5 * (map (\<lambda>y. [- net_rate ?m y 0, - 2 * net_rate ?m y 0, 2 * net_rate ?m y 0]) ys ! i ! 2)
         \<and> flux_assertions_at (map (\<lambda>y. [net_rate ?m y 0]) ys)
              (map (\<lambda>y. [- net_rate ?m y 0, - 2 * net_rate ?m y 0, 2 * net_rate ?m y 0]) ys) (int i) = Inr ()"
      by simp
  qed
qed

subsection \<open>Sensitivity to a rate coefficient\<close>

lemma sum_list_one_changed:
  fixes f g :: "nat \<Rightarrow> real"
  assumes "j < n" and "\<And>l. l \<noteq> j \<Longrightarrow> g l = f l"
  shows "sum_list (map g [0..<n]) = sum_list (map f [0..<n]) + (g j - f j)"
proof -
  have "sum_list (map g [0..<n]) - sum_list (map f [0..<n]) = (\<Sum>l = 0..<n. g l - f l)"
    by (simp add: interv_sum_list_conv_sum_set_nat sum_subtractf)
  also have "\<dots> = (\<Sum>l = 0..<n. if l = j then g j - f j else 0)"
    by (rule sum.cong) (auto simp: assms(2))
  also have "\<dots> = g j - f j"
    using assms(1) by simp
  finally show ?thesis by simp
qed

lemma net_rate_perturb_other:
  "l \<noteq> j \<Longrightarrow> net_rate (perturb_k m j) y l = net_rate m y l"
  by (simp add: net_rate_def perturb_k_def concentration_product_def concentration_def)

lemma net_rate_perturb_same:
  "j < length (k_forward m) \<Longrightarrow>
   net_rate (perturb_k m j) y j - net_rate m y j
     = (k_forward m ! j * 0.001) * concentration_product m y (reactants (core_reactions m ! j))"
  by (simp add: net_rate_def perturb_k_def concentration_product_def concentration_def algebra_simps)

lemma species_rate_perturb:
  assumes "j < length (core_reactions m)" "j < length (k_forward m)"
  shows "species_rate (perturb_k m j) y i - species_rate m y i
     = real_of_int (stoich m j i) * ((k_forward m ! j * 0.001)
         * concentration_product m y (reactants (core_reactions m ! j)))"
proof -
  have rx: "core_reactions (perturb_k m j) = core_reactions m" by (simp add: perturb_k_def)
  have st: "\<And>l. stoich (perturb_k m j) l i = stoich m l i" by (simp add: stoich_def perturb_k_def)
  have "species_rate (perturb_k m j) y i
      = species_rate m y i + (real_of_int (stoich m j i) * net_rate (perturb_k m j) y j
            - real_of_int (stoich m j i) * net_rate m y j)"
    unfolding species_rate_def rx st
    by (rule sum_list_one_changed[OF assms(1)]) (simp add: net_rate_perturb_other)
  then have "species_rate (perturb_k m j) y i - species_rate m y i
      = real_of_int (stoich m j i) * (net_rate (perturb_k m j) y j - net_rate m y j)"
    by (simp add: right_diff_distrib)
  then show ?thesis
    by (simp only: net_rate_perturb_same[OF assms(2)])
qed

lemma computeRateDerivative_nth:
  assumes "i < length (core_species m)" "j < length (core_reactions m)"
  shows "computeRateDerivative m y ! i ! j
     = real_of_int (stoich m j i) * concentration_product m y (reactants (core_reactions m ! j))"
  using assms by (simp add: computeRateDerivative_def)

lemma computeRateDerivative_column:
  assumes "j < length (core_reactions m)"
  shows "map (\<lambda>row. row ! j) (computeRateDerivative m y)
     = map (\<lambda>i. real_of_int (stoich m j i)
          * concentration_product m y (reactants (core_reactions m ! j))) [0..<length (core_species m)]"
  using assms by (simp add: computeRateDerivative_def)

lemma fd_column:
  assumes "j < length (core_reactions m)" "j < length (k_forward m)" "k_forward m ! j \<noteq> 0"
  shows "difference_quotient (coreSpeciesRates (perturb_k m j) y) (coreSpeciesRates m y)
           (k_forward (perturb_k m j) ! j - k_forward m ! j)
         = Inr (map (\<lambda>row. row ! j) (computeRateDerivative m y))"
proof -
  have dk: "k_forward (perturb_k m j) ! j - k_forward m ! j = k_forward m ! j * 0.001"
    using assms(2) by (simp add: perturb_k_def algebra_simps)
  have cs: "core_species (perturb_k m j) = core_species m" by (simp add: perturb_k_def)
  have "map2 (\<lambda>a b. (a - b) / (k_forward m ! j * 0.001)) (coreSpeciesRates (perturb_k m j) y) (coreSpeciesRates m y)
      = map (\<lambda>i. (species_rate (perturb_k m j) y i - species_rate m y i) / (k_forward m ! j * 0.001)) [0..<length (core_species m)]"
    by (simp add: coreSpeciesRates_def cs zip_map_map zip_same_conv_map)
  also have "\<dots> = map (\<lambda>i. real_of_int (stoich m j i)
          * concentration_product m y (reactants (core_reactions m ! j))) [0..<length (core_species m)]"
    using assms(3) by (simp add: species_rate_perturb[OF assms(1,2)])
  finally show ?thesis
    by (simp add: difference_quotient_def dk coreSpeciesRates_def cs computeRateDerivative_column[OF assms(1)])
qed


lemma stored_column_passes:
  assumes "j < length (core_reactions m)"
  shows "case set_column (replicate (length (core_species m)) (zeros (length (core_reactions m)))) j
                (map (\<lambda>row. row ! j) (computeRateDerivative m y)) of
           Inl e \<Rightarrow> False
         | Inr fd \<Rightarrow>
             list_all (\<lambda>i. sensitivity_assertion_at fd (computeRateDerivative m y) (i, j) = Inr ())
               [0..<length (core_species m)]"
proof -
  let ?D = "computeRateDerivative m y"
  let ?n = "length (core_species m)"
  let ?fd = "map2 (\<lambda>row v. row[j := v]) (replicate ?n (zeros (length (core_reactions m))))
               (map (\<lambda>row. row ! j) ?D)"
  have lenD: "length ?D = ?n" by (simp add: computeRateDerivative_def)
  have sc: "set_column (replicate ?n (zeros (length (core_reactions m)))) j
                (map (\<lambda>row. row ! j) ?D) = Inr ?fd"
    using assms by (simp add: set_column_def lenD zeros_def list_all_iff)
  have "sensitivity_assertion_at ?fd ?D (i, j) = Inr ()" if "i < ?n" for i
  proof -
    have rowD: "length (?D ! i) = length (core_reactions m)"
      using that by (simp add: computeRateDerivative_def)
    have "getitem2 ?D (int i) (int j) = Inr (?D ! i ! j)"
      using that assms lenD rowD by (simp add: getitem2_def getitem_def)
    moreover have "getitem2 ?fd (int i) (int j) = Inr (?D ! i ! j)"
      using that assms lenD by (simp add: getitem2_def getitem_def zeros_def)
    ultimately show ?thesis
      by (simp add: sensitivity_assertion_at_def assertAlmostEqual_def)
  qed
  then have "list_all (\<lambda>i. sensitivity_assertion_at ?fd ?D (i, j) = Inr ()) [0..<?n]"
    by (simp add: list_all_iff)
  with sc show ?thesis by simp
qed

text \<open>
  With the reverse coefficient held fixed, the rate is linear in the forward coefficient:
  \<open>D[i][j] = stoich(j,i) \<times>\<close> (concentration product of reaction \<open>j\<close>), and raising the
  forward coefficient of reaction \<open>j\<close> by the relative amount \<open>1e-3\<close> and dividing the
  change of the species rates by the change of the coefficient (line 338) gives column \<open>j\<close>
  of \<open>D\<close> exactly, so that the column stored into the zero matrix (lines 316, 338) passes
  the comparison of lines 347-350. The coefficient must not be zero, since the quotient
  divides by its change.
\<close>

lemma sensitivity_column_with_fixed_reverse:
  assumes "j < length (core_reactions m)" "length (k_forward m) = length (core_reactions m)"
    and "k_forward m ! j \<noteq> 0"
  shows "list_all
           (\<lambda>i. computeRateDerivative m y ! i ! j
                  = real_of_int (stoich m j i)
                    * concentration_product m y (reactants (core_reactions m ! j)))
           [0..<length (core_species m)]
       \<and> difference_quotient (coreSpeciesRates (perturb_k m j) y) (coreSpeciesRates m y)
           (k_forward (perturb_k m j) ! j - k_forward m ! j)
           = Inr (map (\<lambda>row. row ! j) (computeRateDerivative m y))
       \<and> (case set_column (replicate (length (core_species m)) (zeros (length (core_reactions m)))) j
                  (map (\<lambda>row. row ! j) (computeRateDerivative m y)) of
             Inl e \<Rightarrow> False
           | Inr fd \<Rightarrow>
               list_all (\<lambda>i. sensitivity_assertion_at fd (computeRateDerivative m y) (i, j) = Inr ())
                 [0..<length (core_species m)])"
proof -
  have j': "j < length (k_forward m)" using assms(1,2) by simp
  have "list_all
           (\<lambda>i. computeRateDerivative m y ! i ! j
                  = real_of_int (stoich m j i)
                    * concentration_product m y (reactants (core_reactions m ! j)))
           [0..<length (core_species m)]"
    using computeRateDerivative_nth[OF _ assms(1)] by (simp add: list_all_iff)
  moreover note fd_column[OF assms(1) j' assms(3), of y] stored_column_passes[OF assms(1), of y]
  ultimately show ?thesis by simp
qed

text \<open>
  With the reverse coefficient raised together with the forward one, the quotient carries
  the reverse term as well: for the model reaction at the balanced state the net rate is
  \<open>0\<close> before and after the perturbation, the quotient is the zero column, and column \<open>0\<close>
  of \<open>D\<close> is \<open>[-1, -2, 2]\<close>. Which of the two perturbations the sensitivity check (claim
  C3) performs is decided by collaborators that are not among the sources, and the
  specification does not say; the claim is left open.
\<close>

lemma sensitivity_column_with_scaled_reverse:
  "difference_quotient (coreSpeciesRates (perturb_k_both unit_model 0) balanced_state)
       (coreSpeciesRates unit_model balanced_state)
       (k_forward (perturb_k_both unit_model 0) ! 0 - k_forward unit_model ! 0)
     = Inr [0, 0, 0]
   \<and> map (\<lambda>row. row ! 0) (computeRateDerivative unit_model balanced_state) = [- 1, - 2, 2]"
  by (simp add: difference_quotient_def computeRateDerivative_def perturb_k_both_def
      coreSpeciesRates_def species_rate_def stoich_def net_rate_def
      concentration_product_def concentration_def unit_model_def balanced_state_def
      surface_model_def coreSpecies_def coreReactions_def rxn1_def
      upt_rec[of 0] upt_rec[of 1] upt_rec[of 2])

subsection \<open>The Jacobian against finite differences\<close>

lemma concentration_update:
  "k < length y \<Longrightarrow>
   concentration m (y[k := y ! k + d]) i
     = concentration m y i + (if i = k then d * conc_scale m ! k else 0)"
  by (simp add: concentration_def nth_list_update algebra_simps)

lemma product_absent:
  assumes "k < length y" "occurrences m sps k = 0"
  shows "concentration_product m (y[k := y ! k + d]) sps = concentration_product m y sps
       \<and> d_concentration_product m y sps k = 0"
  using assms(2)
proof (induction sps)
  case Nil
  then show ?case by (simp add: concentration_product_def)
next
  case (Cons sp sps)
  then have ne: "index_of (core_species m) sp \<noteq> k" and rest: "occurrences m sps k = 0"
    by (auto simp: occurrences_def split: if_splits)
  from Cons.IH[OF rest] ne show ?case
    by (simp add: concentration_product_def concentration_update[OF assms(1)])
qed

lemma product_first_order:
  assumes "k < length y" "occurrences m sps k \<le> 1"
  shows "concentration_product m (y[k := y ! k + d]) sps
       = concentration_product m y sps + d * d_concentration_product m y sps k"
  using assms(2)
proof (induction sps)
  case Nil
  then show ?case by (simp add: concentration_product_def)
next
  case (Cons sp sps)
  show ?case
  proof (cases "index_of (core_species m) sp = k")
    case True
    with Cons.prems have rest: "occurrences m sps k = 0"
      by (simp add: occurrences_def)
    have "concentration_product m (y[k := y ! k + d]) (sp # sps)
        = (concentration m y k + d * conc_scale m ! k) * concentration_product m y sps"
      using product_absent[OF assms(1) rest, of d] True
      by (simp add: concentration_product_def concentration_update[OF assms(1)])
    moreover have "d_concentration_product m y (sp # sps) k
        = conc_scale m ! k * concentration_product m y sps"
      using product_absent[OF assms(1) rest, of d] True by simp
    moreover have "concentration_product m y (sp # sps)
        = concentration m y k * concentration_product m y sps"
      using True by (simp add: concentration_product_def)
    ultimately show ?thesis
      by (simp add: algebra_simps)
  next
    case False
    with Cons.prems have rest: "occurrences m sps k \<le> 1"
      by (simp add: occurrences_def)
    have step: "concentration_product m (y[k := y ! k + d]) (sp # sps)
        = concentration m y (index_of (core_species m) sp)
            * concentration_product m (y[k := y ! k + d]) sps"
      using False by (simp add: concentration_product_def concentration_update[OF assms(1)])
    show ?thesis
      unfolding step Cons.IH[OF rest]
      using False by (simp add: concentration_product_def algebra_simps)
  qed
qed

lemma net_rate_first_order:
  assumes "k < length y" "j < length (core_reactions m)" "first_order_in m k"
  shows "net_rate m (y[k := y ! k + d]) j = net_rate m y j + d * d_net_rate m y j k"
proof -
  from assms(2,3) have occ:
    "occurrences m (reactants (core_reactions m ! j)) k \<le> 1"
    "occurrences m (products (core_reactions m ! j)) k \<le> 1"
    by (simp_all add: first_order_in_def list_all_length)
  show ?thesis
    unfolding net_rate_def d_net_rate_def
      product_first_order[OF assms(1) occ(1)] product_first_order[OF assms(1) occ(2)]
    by (simp add: algebra_simps)
qed

lemma sum_list_affine:
  fixes a b :: "'a \<Rightarrow> real"
  shows "sum_list (map (\<lambda>j. a j + d * b j) xs) = sum_list (map a xs) + d * sum_list (map b xs)"
  by (induction xs) (simp_all add: algebra_simps)

lemma species_rate_first_order:
  assumes "k < length y" "first_order_in m k"
  shows "species_rate m (y[k := y ! k + d]) i = species_rate m y i + d * d_species_rate m y i k"
proof -
  have "map (\<lambda>j. real_of_int (stoich m j i) * net_rate m (y[k := y ! k + d]) j)
            [0..<length (core_reactions m)]
      = map (\<lambda>j. real_of_int (stoich m j i) * net_rate m y j
                  + d * (real_of_int (stoich m j i) * d_net_rate m y j k))
            [0..<length (core_reactions m)]"
  proof (rule map_cong)
    fix j assume "j \<in> set [0..<length (core_reactions m)]"
    then have j: "j < length (core_reactions m)" by simp
    show "real_of_int (stoich m j i) * net_rate m (y[k := y ! k + d]) j
        = real_of_int (stoich m j i) * net_rate m y j
          + d * (real_of_int (stoich m j i) * d_net_rate m y j k)"
      unfolding net_rate_first_order[OF assms(1) j assms(2)]
      by (simp add: algebra_simps)
  qed simp
  then show ?thesis
    unfolding species_rate_def d_species_rate_def
    by (simp only: sum_list_affine)
qed

lemma residual_nth:
  assumes "i < length y" "length y = length (core_species m)"
  shows "fst (residual m t y dydt) ! i = dydt ! i - species_rate m y i * normalization m ! i"
  using assms by (simp add: residual_def coreSpeciesRates_def)

lemma fd_quotient_spec:
  assumes "i < length y" "k < length y" "length y = length (core_species m)"
  shows "fd_quotient (perturbed_residuals m y) (fst (residual m 0 y (zeros (length y))))
           (perturbation_dN y) i k
       = Inr ((fst (residual m 0 (y[k := y ! k + perturbation_dN y]) (zeros (length y))) ! i
               - fst (residual m 0 y (zeros (length y))) ! i) / perturbation_dN y)"
  using assms
  by (simp add: fd_quotient_def getitem_def perturbed_residuals_def residual_def)

lemma fd_exact:
  assumes "i < length y" "k < length y" "length y = length (core_species m)"
      "first_order_in m k" "perturbation_dN y \<noteq> 0"
  shows "fd_quotient (perturbed_residuals m y) (fst (residual m 0 y (zeros (length y))))
           (perturbation_dN y) i k
       = Inr (jacobian m 0 y (fst (residual m 0 y (zeros (length y)))) 0 ! i ! k)"
proof -
  let ?d = "perturbation_dN y"
  let ?y' = "y[k := y ! k + ?d]"
  have len: "i < length ?y'" "length ?y' = length (core_species m)"
    using assms by simp_all
  have "fst (residual m 0 ?y' (zeros (length y))) ! i - fst (residual m 0 y (zeros (length y))) ! i
      = - (?d * d_species_rate m y i k) * normalization m ! i"
    unfolding residual_nth[OF len] residual_nth[OF assms(1,3)]
      species_rate_first_order[OF assms(2,4)]
    by (simp add: algebra_simps)
  then have "(fst (residual m 0 ?y' (zeros (length y))) ! i
               - fst (residual m 0 y (zeros (length y))) ! i) / ?d
      = - d_species_rate m y i k * normalization m ! i"
    using assms(5) by simp
  moreover have "jacobian m 0 y (fst (residual m 0 y (zeros (length y)))) 0 ! i ! k
      = - d_species_rate m y i k * normalization m ! i"
    using assms(1,2) by (simp add: jacobian_def)
  ultimately show ?thesis
    by (simp add: fd_quotient_spec[OF assms(1,2,3)])
qed


lemma fd_check_passes:
  assumes "i < length y" "k < length y" "length y = length (core_species m)"
      "first_order_in m k" "perturbation_dN y \<noteq> 0"
  shows "fd_jacobian_check m y i k = Inr ()"
proof -
  have "getitem2 (jacobian m 0 y (fst (residual m 0 y (zeros (length y)))) 0) (int i) (int k)
      = Inr (jacobian m 0 y (fst (residual m 0 y (zeros (length y)))) 0 ! i ! k)"
    using assms(1,2) by (simp add: getitem2_def getitem_def jacobian_def)
  with fd_exact[OF assms] show ?thesis
    by (simp add: fd_jacobian_check_def jacobian_assertion_at_def assertAlmostEqual_def)
qed

text \<open>
  Beyond the first order the forward difference is not exact. The difference of two powers
  over \<open>d\<close> is at least the derivative at \<open>y\<close>, and exceeds it by at most
  \<open>a \<times> (a - 1) / 2 \<times> d \<times> (y + d)^(a-2)\<close>, which is within \<open>1e-4\<close> of the quotient
  when \<open>y\<close> is at least \<open>5000.5 \<times> (a - 1) \<times> d\<close>.
\<close>

lemma pow_diff_bounds:
  fixes y d :: real
  assumes "0 \<le> y" "0 \<le> d"
  shows "real a * y ^ (a - 1) * d \<le> (y + d) ^ a - y ^ a
       \<and> (y + d) ^ a - y ^ a \<le> real a * (y + d) ^ (a - 1) * d"
proof (induction a)
  case 0
  then show ?case by simp
next
  case (Suc a)
  have step: "(y + d) ^ Suc a - y ^ Suc a = (y + d) * ((y + d) ^ a - y ^ a) + d * y ^ a"
    by (simp add: algebra_simps)
  have yd: "0 \<le> y + d" using assms by simp
  have low: "real a * y ^ a * d \<le> (y + d) * ((y + d) ^ a - y ^ a)"
  proof (cases a)
    case 0
    then show ?thesis by simp
  next
    case (Suc b)
    have "real a * y ^ a * d = y * (real a * y ^ (a - 1) * d)"
      using Suc by simp
    also have "\<dots> \<le> y * ((y + d) ^ a - y ^ a)"
      using Suc.IH assms(1) by (intro mult_left_mono) auto
    also have "\<dots> \<le> (y + d) * ((y + d) ^ a - y ^ a)"
      using assms by (intro mult_right_mono) (auto simp: power_mono)
    finally show ?thesis .
  qed
  have up: "(y + d) * ((y + d) ^ a - y ^ a) \<le> real a * (y + d) ^ a * d"
  proof (cases a)
    case 0
    then show ?thesis by simp
  next
    case (Suc b)
    have "(y + d) * ((y + d) ^ a - y ^ a) \<le> (y + d) * (real a * (y + d) ^ (a - 1) * d)"
      using Suc.IH yd by (intro mult_left_mono) auto
    also have "\<dots> = real a * (y + d) ^ a * d"
      using Suc by simp
    finally show ?thesis .
  qed
  have ypow: "d * y ^ a \<le> d * (y + d) ^ a"
    using assms by (intro mult_left_mono power_mono) auto
  from low up ypow show ?case
    unfolding step by (simp add: algebra_simps)
qed

lemma pow_excess:
  fixes y d :: real
  assumes "0 \<le> y" "0 \<le> d"
  shows "(y + d) ^ (Suc (Suc n)) - y ^ (Suc (Suc n)) - real (Suc (Suc n)) * d * y ^ Suc n
       \<le> (real (Suc (Suc n)) * real (Suc n) / 2) * d\<^sup>2 * (y + d) ^ n"
proof (induction n)
  case 0
  show ?case by (simp add: power2_eq_square algebra_simps)
next
  case (Suc n)
  let ?E = "\<lambda>a. (y + d) ^ a - y ^ a - real a * d * y ^ (a - 1)"
  have yd: "0 \<le> y + d" using assms by simp
  have rec: "(y + d) ^ (Suc (Suc (Suc n))) - y ^ (Suc (Suc (Suc n)))
        - real (Suc (Suc (Suc n))) * d * y ^ Suc (Suc n)
      = (y + d) * ((y + d) ^ (Suc (Suc n)) - y ^ (Suc (Suc n)) - real (Suc (Suc n)) * d * y ^ Suc n)
        + real (Suc (Suc n)) * d\<^sup>2 * y ^ Suc n"
    by (simp add: power2_eq_square algebra_simps)
  have "(y + d) * ((y + d) ^ (Suc (Suc n)) - y ^ (Suc (Suc n)) - real (Suc (Suc n)) * d * y ^ Suc n)
      \<le> (y + d) * ((real (Suc (Suc n)) * real (Suc n) / 2) * d\<^sup>2 * (y + d) ^ n)"
    using Suc.IH yd by (rule mult_left_mono)
  moreover have "real (Suc (Suc n)) * d\<^sup>2 * y ^ Suc n
      \<le> real (Suc (Suc n)) * d\<^sup>2 * (y + d) ^ Suc n"
    using assms by (intro mult_left_mono power_mono) auto
  ultimately have "(y + d) ^ (Suc (Suc (Suc n))) - y ^ (Suc (Suc (Suc n)))
        - real (Suc (Suc (Suc n))) * d * y ^ Suc (Suc n)
      \<le> (y + d) * ((real (Suc (Suc n)) * real (Suc n) / 2) * d\<^sup>2 * (y + d) ^ n)
        + real (Suc (Suc n)) * d\<^sup>2 * (y + d) ^ Suc n"
    unfolding rec by linarith
  also have "\<dots> = (real (Suc (Suc (Suc n))) * real (Suc (Suc n)) / 2) * d\<^sup>2 * (y + d) ^ Suc n"
    by (simp add: algebra_simps)
  finally show ?case .
qed

lemma pow_bernoulli:
  fixes y d :: real
  assumes "0 \<le> d" "real n * d \<le> y"
  shows "(y + d) ^ n * (y - real n * d) \<le> y ^ Suc n"
  using assms(2)
proof (induction n)
  case 0
  then show ?case by simp
next
  case (Suc n)
  have nd: "real n * d \<le> y"
  proof -
    have "real n * d \<le> real (Suc n) * d"
      using assms(1) by (intro mult_right_mono) auto
    with Suc.prems show ?thesis by linarith
  qed
  have y0: "0 \<le> y"
  proof -
    have "0 \<le> real n * d" using assms(1) by simp
    with nd show ?thesis by linarith
  qed
  have p0: "0 \<le> (y + d) ^ n" using y0 assms(1) by simp
  have "(y + d) * (y - real (Suc n) * d) \<le> y * (y - real n * d)"
  proof -
    have "(y + d) * (y - real (Suc n) * d) = y * (y - real n * d) - real (Suc n) * d\<^sup>2"
      by (simp add: power2_eq_square algebra_simps)
    moreover have "0 \<le> real (Suc n) * d\<^sup>2" by simp
    ultimately show ?thesis by linarith
  qed
  then have "(y + d) ^ n * ((y + d) * (y - real (Suc n) * d))
      \<le> (y + d) ^ n * (y * (y - real n * d))"
    using p0 by (rule mult_left_mono)
  also have "\<dots> = y * ((y + d) ^ n * (y - real n * d))"
    by simp
  also have "\<dots> \<le> y * y ^ Suc n"
    using Suc.IH[OF nd] y0 by (rule mult_left_mono)
  finally show ?case by (simp add: mult_ac)
qed

text \<open>
  A concentration product is a multiple of the power of \<open>y[k]\<close> whose exponent is the
  number of occurrences of species \<open>k\<close>; the factor does not depend on \<open>y[k]\<close>, and the
  product rule of \<open>d_concentration_product\<close> yields the derivative of that power.
\<close>

lemma product_power_form:
  assumes "k < length y"
  shows "\<exists>w. concentration_product m y sps = w * (y ! k) ^ occurrences m sps k
           \<and> concentration_product m (y[k := y ! k + d]) sps
               = w * (y ! k + d) ^ occurrences m sps k
           \<and> d_concentration_product m y sps k
               = w * (real (occurrences m sps k) * (y ! k) ^ (occurrences m sps k - 1))"
proof (induction sps)
  case Nil
  show ?case by (simp add: concentration_product_def occurrences_def)
next
  case (Cons sp sps)
  then obtain w where w:
    "concentration_product m y sps = w * (y ! k) ^ occurrences m sps k"
    "concentration_product m (y[k := y ! k + d]) sps = w * (y ! k + d) ^ occurrences m sps k"
    "d_concentration_product m y sps k
       = w * (real (occurrences m sps k) * (y ! k) ^ (occurrences m sps k - 1))"
    by blast
  have cons0: "concentration_product m z (sp # sps)
      = concentration m z (index_of (core_species m) sp) * concentration_product m z sps" for z
    by (simp add: concentration_product_def)
  show ?case
  proof (cases "index_of (core_species m) sp = k")
    case True
    have occ: "occurrences m (sp # sps) k = Suc (occurrences m sps k)"
      using True by (simp add: occurrences_def)
    have c0: "concentration m y k = y ! k * conc_scale m ! k"
      by (simp add: concentration_def)
    have c1: "concentration m (y[k := y ! k + d]) k = (y ! k + d) * conc_scale m ! k"
      using assms by (simp add: concentration_def)
    have pw: "y ! k * (y ! k) ^ (occurrences m sps k - 1) * real (occurrences m sps k)
        = (y ! k) ^ occurrences m sps k * real (occurrences m sps k)"
      by (cases "occurrences m sps k") simp_all
    have "concentration_product m y (sp # sps)
        = (conc_scale m ! k * w) * (y ! k) ^ occurrences m (sp # sps) k"
      unfolding cons0 True c0 w occ by simp
    moreover have "concentration_product m (y[k := y ! k + d]) (sp # sps)
        = (conc_scale m ! k * w) * (y ! k + d) ^ occurrences m (sp # sps) k"
      unfolding cons0 True c1 w occ by simp
    moreover have "d_concentration_product m y (sp # sps) k
        = (conc_scale m ! k * w)
          * (real (occurrences m (sp # sps) k) * (y ! k) ^ (occurrences m (sp # sps) k - 1))"
    proof -
      have "d_concentration_product m y (sp # sps) k
          = conc_scale m ! k * concentration_product m y sps
            + concentration m y k * d_concentration_product m y sps k"
        using True by simp
      also have "\<dots> = conc_scale m ! k * w * (y ! k) ^ occurrences m sps k
            + conc_scale m ! k * w
              * (y ! k * (y ! k) ^ (occurrences m sps k - 1) * real (occurrences m sps k))"
        unfolding c0 w by simp
      also have "\<dots> = conc_scale m ! k * w
            * ((y ! k) ^ occurrences m sps k * (1 + real (occurrences m sps k)))"
        unfolding pw by (simp add: algebra_simps)
      finally show ?thesis
        unfolding occ by (simp add: algebra_simps)
    qed
    ultimately show ?thesis by blast
  next
    case False
    have occ: "occurrences m (sp # sps) k = occurrences m sps k"
      using False by (simp add: occurrences_def)
    have c1: "concentration m (y[k := y ! k + d]) (index_of (core_species m) sp)
        = concentration m y (index_of (core_species m) sp)"
      using False by (simp add: concentration_def)
    let ?c = "concentration m y (index_of (core_species m) sp)"
    have "concentration_product m y (sp # sps) = (?c * w) * (y ! k) ^ occurrences m (sp # sps) k"
      unfolding cons0 w occ by simp
    moreover have "concentration_product m (y[k := y ! k + d]) (sp # sps)
        = (?c * w) * (y ! k + d) ^ occurrences m (sp # sps) k"
      unfolding cons0 c1 w occ by simp
    moreover have "d_concentration_product m y (sp # sps) k
        = (?c * w)
          * (real (occurrences m (sp # sps) k) * (y ! k) ^ (occurrences m (sp # sps) k - 1))"
      using False unfolding d_concentration_product.simps w occ by simp
    ultimately show ?thesis by blast
  qed
qed


lemma pow_near:
  fixes y d :: real
  assumes "0 < d" "a \<le> 1 \<or> 10001 * (real (a - 1) * d) \<le> 2 * y"
  shows "real a * y ^ (a - 1) \<le> ((y + d) ^ a - y ^ a) / d
       \<and> 9999 * (((y + d) ^ a - y ^ a) / d) \<le> 10000 * (real a * y ^ (a - 1))"
proof (cases "a \<le> 1")
  case True
  then have "a = 0 \<or> a = 1" by auto
  then show ?thesis using assms(1) by auto
next
  case False
  then obtain n where a: "a = Suc (Suc n)"
    by (metis Suc_le_eq less_Suc_eq_le not0_implies_Suc not_less_eq_eq One_nat_def le_0_eq)
  from False assms(2) have bound: "10001 * (real (Suc n) * d) \<le> 2 * y"
    by (simp add: a)
  have d0: "0 \<le> d" using assms(1) by simp
  have nd0: "0 \<le> real (Suc n) * d" using d0 by simp
  with bound have y0: "0 \<le> y" by linarith
  have nd: "real n * d \<le> y"
  proof -
    have "real n * d \<le> real (Suc n) * d" using d0 by (intro mult_right_mono) auto
    with bound nd0 show ?thesis by linarith
  qed
  let ?Q = "((y + d) ^ a - y ^ a) / d"
  let ?J = "real a * y ^ (a - 1)"
  from pow_diff_bounds[OF y0 d0, of a]
  have "?J * d \<le> (y + d) ^ a - y ^ a" by simp
  then have low: "?J \<le> ?Q"
    using assms(1) by (simp add: field_simps)
  have exc: "(y + d) ^ a - y ^ a - ?J * d
      \<le> (real (Suc (Suc n)) * real (Suc n) / 2) * d\<^sup>2 * (y + d) ^ n"
    using pow_excess[OF y0 d0, of n] by (simp add: a algebra_simps)
  have gap: "9999 * (real (Suc n) * d) \<le> 2 * (y - real n * d)"
  proof -
    have "2 * (y - real n * d) - 9999 * (real (Suc n) * d)
        = 2 * y - 10001 * (real (Suc n) * d) + 2 * d"
      by (simp add: algebra_simps)
    with bound d0 show ?thesis by linarith
  qed
  have p0: "0 \<le> (y + d) ^ n" using y0 d0 by simp
  have "9999 * (real (Suc n) * d) * (y + d) ^ n \<le> 2 * (y - real n * d) * (y + d) ^ n"
    using gap p0 by (rule mult_right_mono)
  also have "\<dots> = 2 * ((y + d) ^ n * (y - real n * d))" by simp
  also have "\<dots> \<le> 2 * y ^ Suc n"
    using pow_bernoulli[OF d0 nd] by simp
  finally have key: "9999 * (real (Suc n) * d) * (y + d) ^ n \<le> 2 * y ^ Suc n" .
  have "9999 * ((y + d) ^ a - y ^ a - ?J * d)
      \<le> 9999 * ((real (Suc (Suc n)) * real (Suc n) / 2) * d\<^sup>2 * (y + d) ^ n)"
    using exc by simp
  also have "\<dots> = (real (Suc (Suc n)) * d / 2) * (9999 * (real (Suc n) * d) * (y + d) ^ n)"
    by (simp add: power2_eq_square field_simps)
  also have "\<dots> \<le> (real (Suc (Suc n)) * d / 2) * (2 * y ^ Suc n)"
    using key d0 by (intro mult_left_mono) auto
  also have "\<dots> = ?J * d"
    by (simp add: a)
  finally have "9999 * ((y + d) ^ a - y ^ a) \<le> 10000 * (?J * d)"
    by (simp add: mult_ac)
  then have "9999 * ?Q \<le> 10000 * ?J"
    using assms(1) by (simp add: field_simps)
  with low show ?thesis by simp
qed

lemma product_near:
  assumes "k < length y" "0 < d"
    and "occurrences m sps k \<le> 1 \<or> 10001 * (real (occurrences m sps k - 1) * d) \<le> 2 * y ! k"
  shows "\<exists>w u v. (concentration_product m (y[k := y ! k + d]) sps
                    - concentration_product m y sps) / d = w * u
               \<and> d_concentration_product m y sps k = w * v
               \<and> v \<le> u \<and> 9999 * u \<le> 10000 * v"
proof -
  let ?a = "occurrences m sps k"
  from product_power_form[OF assms(1), of m sps d] obtain w where w:
    "concentration_product m y sps = w * (y ! k) ^ ?a"
    "concentration_product m (y[k := y ! k + d]) sps = w * (y ! k + d) ^ ?a"
    "d_concentration_product m y sps k = w * (real ?a * (y ! k) ^ (?a - 1))"
    by blast
  have "(concentration_product m (y[k := y ! k + d]) sps - concentration_product m y sps) / d
      = w * (((y ! k + d) ^ ?a - (y ! k) ^ ?a) / d)"
    unfolding w by (simp add: algebra_simps diff_divide_distrib)
  with w(3) pow_near[OF assms(2,3)] show ?thesis by blast
qed

lemma near_scaled:
  fixes u v w :: real
  assumes "v \<le> u" "9999 * u \<le> 10000 * v"
  shows "(0 \<le> w * v \<longrightarrow> w * v \<le> w * u \<and> 9999 * (w * u) \<le> 10000 * (w * v))
       \<and> (w * v \<le> 0 \<longrightarrow> w * u \<le> w * v \<and> 10000 * (w * v) \<le> 9999 * (w * u))"
proof -
  from assms have v0: "0 \<le> v" by linarith
  show ?thesis
  proof (cases "v = 0")
    case True
    with assms have "u = 0" by linarith
    with True show ?thesis by simp
  next
    case False
    with v0 have vpos: "0 < v" by simp
    show ?thesis
    proof (cases "0 \<le> w")
      case True
      have a: "w * v \<le> w * u" using True assms(1) by (rule mult_left_mono[rotated])
      have "w * (9999 * u) \<le> w * (10000 * v)"
        using True assms(2) by (rule mult_left_mono[rotated])
      then have b: "9999 * (w * u) \<le> 10000 * (w * v)" by simp
      have "w * v \<le> 0 \<Longrightarrow> w = 0"
        using True vpos by (simp add: mult_le_0_iff)
      with a b show ?thesis by auto
    next
      case False
      then have w: "w \<le> 0" by simp
      have a: "w * u \<le> w * v" using assms(1) w by (rule mult_left_mono_neg)
      have "w * (10000 * v) \<le> w * (9999 * u)"
        using assms(2) w by (rule mult_left_mono_neg)
      then have b: "10000 * (w * v) \<le> 9999 * (w * u)" by simp
      have "0 \<le> w * v \<Longrightarrow> False"
        using False vpos by (simp add: zero_le_mult_iff)
      with a b show ?thesis by auto
    qed
  qed
qed

lemma sum_list_near:
  fixes q J :: "'a \<Rightarrow> real"
  assumes "\<forall>j \<in> set js. J j \<le> q j \<and> 9999 * q j \<le> 10000 * J j"
  shows "sum_list (map J js) \<le> sum_list (map q js)
       \<and> 9999 * sum_list (map q js) \<le> 10000 * sum_list (map J js)"
  using assms by (induction js) (auto simp: algebra_simps)

lemma sum_list_pairs:
  fixes f g :: "'a \<Rightarrow> real"
  shows "sum_list (concat (map (\<lambda>j. [f j, g j]) js)) = sum_list (map (\<lambda>j. f j + g j) js)"
  by (induction js) simp_all

lemma list_all_pairs:
  "list_all P (concat (map (\<lambda>j. [f j, g j]) js)) \<longleftrightarrow> (\<forall>j \<in> set js. P (f j) \<and> P (g j))"
  by (induction js) auto

lemma d_species_rate_terms: "d_species_rate m y i k = sum_list (jacobian_terms m y i k)"
  unfolding d_species_rate_def jacobian_terms_def sum_list_pairs d_net_rate_def
  by (simp add: algebra_simps)


lemma sum_list_near_neg:
  fixes q J :: "'a \<Rightarrow> real"
  assumes "\<forall>j \<in> set js. q j \<le> J j \<and> 10000 * J j \<le> 9999 * q j"
  shows "sum_list (map q js) \<le> sum_list (map J js)
       \<and> 10000 * sum_list (map J js) \<le> 9999 * sum_list (map q js)"
  using assms by (induction js) (auto simp: algebra_simps)

lemma sum_list_diff_quotient:
  fixes f g :: "'a \<Rightarrow> real"
  shows "(sum_list (map f js) - sum_list (map g js)) / d
       = sum_list (map (\<lambda>j. (f j - g j) / d) js)"
  by (induction js) (simp_all add: diff_divide_distrib add_divide_distrib)

lemma forward_term_near:
  assumes "k < length y" "0 < d"
    and "occurrences m sps k \<le> 1 \<or> 10001 * (real (occurrences m sps k - 1) * d) \<le> 2 * y ! k"
  shows "(0 \<le> c * d_concentration_product m y sps k \<longrightarrow>
            c * d_concentration_product m y sps k
              \<le> c * ((concentration_product m (y[k := y ! k + d]) sps
                      - concentration_product m y sps) / d)
          \<and> 9999 * (c * ((concentration_product m (y[k := y ! k + d]) sps
                      - concentration_product m y sps) / d))
              \<le> 10000 * (c * d_concentration_product m y sps k))
       \<and> (c * d_concentration_product m y sps k \<le> 0 \<longrightarrow>
            c * ((concentration_product m (y[k := y ! k + d]) sps
                      - concentration_product m y sps) / d)
              \<le> c * d_concentration_product m y sps k
          \<and> 10000 * (c * d_concentration_product m y sps k)
              \<le> 9999 * (c * ((concentration_product m (y[k := y ! k + d]) sps
                      - concentration_product m y sps) / d)))"
proof -
  from product_near[OF assms] obtain w u v where wuv:
    "(concentration_product m (y[k := y ! k + d]) sps - concentration_product m y sps) / d = w * u"
    "d_concentration_product m y sps k = w * v" "v \<le> u" "9999 * u \<le> 10000 * v"
    by blast
  from near_scaled[OF wuv(3,4), of "c * w"] show ?thesis
    unfolding wuv(1,2) by (simp add: mult.assoc)
qed


lemma species_rate_near:
  assumes k: "k < length y" and d: "0 < d"
    and res_r: "\<And>j. j < length (core_reactions m) \<Longrightarrow>
        occurrences m (reactants (core_reactions m ! j)) k \<le> 1
        \<or> 10001 * (real (occurrences m (reactants (core_reactions m ! j)) k - 1) * d) \<le> 2 * y ! k"
    and res_p: "\<And>j. j < length (core_reactions m) \<Longrightarrow> reversible m ! j \<Longrightarrow>
        occurrences m (products (core_reactions m ! j)) k \<le> 1
        \<or> 10001 * (real (occurrences m (products (core_reactions m ! j)) k - 1) * d) \<le> 2 * y ! k"
    and sgn: "same_sign (jacobian_terms m y i k)"
  shows "\<bar>(species_rate m (y[k := y ! k + d]) i - species_rate m y i) / d
           - d_species_rate m y i k\<bar>
         \<le> \<bar>(species_rate m (y[k := y ! k + d]) i - species_rate m y i) / d\<bar> / 10 ^ 4"
proof -
  let ?js = "[0..<length (core_reactions m)]"
  let ?y' = "y[k := y ! k + d]"
  define Pq where "Pq sps = (concentration_product m ?y' sps - concentration_product m y sps) / d"
    for sps
  define qf where "qf j = real_of_int (stoich m j i)
      * (k_forward m ! j * Pq (reactants (core_reactions m ! j)))" for j
  define qr where "qr j = - (real_of_int (stoich m j i)
      * (if reversible m ! j then k_reverse m ! j * Pq (products (core_reactions m ! j)) else 0))"
    for j
  define Jf where "Jf j = real_of_int (stoich m j i)
      * (k_forward m ! j * d_concentration_product m y (reactants (core_reactions m ! j)) k)" for j
  define Jr where "Jr j = - (real_of_int (stoich m j i)
      * (if reversible m ! j
         then k_reverse m ! j * d_concentration_product m y (products (core_reactions m ! j)) k
         else 0))" for j
  have terms: "jacobian_terms m y i k = concat (map (\<lambda>j. [Jf j, Jr j]) ?js)"
    by (simp add: jacobian_terms_def Jf_def Jr_def)
  have J: "d_species_rate m y i k = sum_list (map (\<lambda>j. Jf j + Jr j) ?js)"
    unfolding d_species_rate_terms terms sum_list_pairs ..
  have "(real_of_int (stoich m j i) * net_rate m ?y' j
          - real_of_int (stoich m j i) * net_rate m y j) / d = qf j + qr j" for j
    using d by (simp add: net_rate_def qf_def qr_def Pq_def field_simps)
  then have Q: "(species_rate m ?y' i - species_rate m y i) / d
      = sum_list (map (\<lambda>j. qf j + qr j) ?js)"
    unfolding species_rate_def sum_list_diff_quotient by simp
  have nf: "(0 \<le> Jf j \<longrightarrow> Jf j \<le> qf j \<and> 9999 * qf j \<le> 10000 * Jf j)
          \<and> (Jf j \<le> 0 \<longrightarrow> qf j \<le> Jf j \<and> 10000 * Jf j \<le> 9999 * qf j)"
    if "j < length (core_reactions m)" for j
    using forward_term_near[OF k d res_r[OF that],
        of "real_of_int (stoich m j i) * k_forward m ! j"]
    by (simp add: Jf_def qf_def Pq_def mult.assoc)
  have nr: "(0 \<le> Jr j \<longrightarrow> Jr j \<le> qr j \<and> 9999 * qr j \<le> 10000 * Jr j)
          \<and> (Jr j \<le> 0 \<longrightarrow> qr j \<le> Jr j \<and> 10000 * Jr j \<le> 9999 * qr j)"
    if "j < length (core_reactions m)" for j
  proof (cases "reversible m ! j")
    case True
    from forward_term_near[OF k d res_p[OF that True],
        of "- (real_of_int (stoich m j i) * k_reverse m ! j)"] True
    show ?thesis
      by (simp add: Jr_def qr_def Pq_def mult.assoc)
  next
    case False
    then show ?thesis by (simp add: Jr_def qr_def)
  qed
  from sgn consider
      (pos) "\<forall>j \<in> set ?js. 0 \<le> Jf j \<and> 0 \<le> Jr j"
    | (neg) "\<forall>j \<in> set ?js. Jf j \<le> 0 \<and> Jr j \<le> 0"
    unfolding same_sign_def terms list_all_pairs by blast
  then show ?thesis
  proof cases
    case pos
    have "\<forall>j \<in> set ?js. Jf j + Jr j \<le> qf j + qr j
        \<and> 9999 * (qf j + qr j) \<le> 10000 * (Jf j + Jr j)"
    proof
      fix j assume j: "j \<in> set ?js"
      then have "j < length (core_reactions m)" by simp
      from nf[OF this] nr[OF this] pos j
      show "Jf j + Jr j \<le> qf j + qr j \<and> 9999 * (qf j + qr j) \<le> 10000 * (Jf j + Jr j)"
        by (simp add: algebra_simps add_mono)
    qed
    from sum_list_near[OF this] show ?thesis
      unfolding Q J by (simp add: abs_if) 
  next
    case neg
    have "\<forall>j \<in> set ?js. qf j + qr j \<le> Jf j + Jr j
        \<and> 10000 * (Jf j + Jr j) \<le> 9999 * (qf j + qr j)"
    proof
      fix j assume j: "j \<in> set ?js"
      then have "j < length (core_reactions m)" by simp
      from nf[OF this] nr[OF this] neg j
      show "qf j + qr j \<le> Jf j + Jr j \<and> 10000 * (Jf j + Jr j) \<le> 9999 * (qf j + qr j)"
        by (simp add: algebra_simps add_mono)
    qed
    from sum_list_near_neg[OF this] show ?thesis
      unfolding Q J by (simp add: abs_if)
  qed
qed

lemma resolved_in_dN:
  assumes "resolved_in m y k" "j < length (core_reactions m)"
  shows "occurrences m (reactants (core_reactions m ! j)) k \<le> 1
        \<or> 10001 * (real (occurrences m (reactants (core_reactions m ! j)) k - 1)
             * perturbation_dN y) \<le> 2 * y ! k"
    and "reversible m ! j \<Longrightarrow>
        occurrences m (products (core_reactions m ! j)) k \<le> 1
        \<or> 10001 * (real (occurrences m (products (core_reactions m ! j)) k - 1)
             * perturbation_dN y) \<le> 2 * y ! k"
proof -
  from assms have r: "order_resolved y k (occurrences m (reactants (core_reactions m ! j)) k)"
    and p: "reversible m ! j \<Longrightarrow>
        order_resolved y k (occurrences m (products (core_reactions m ! j)) k)"
    by (simp_all add: resolved_in_def list_all_iff)
  from r show "occurrences m (reactants (core_reactions m ! j)) k \<le> 1
        \<or> 10001 * (real (occurrences m (reactants (core_reactions m ! j)) k - 1)
             * perturbation_dN y) \<le> 2 * y ! k"
    by (simp add: order_resolved_def)
  assume "reversible m ! j"
  from p[OF this] show "occurrences m (products (core_reactions m ! j)) k \<le> 1
        \<or> 10001 * (real (occurrences m (products (core_reactions m ! j)) k - 1)
             * perturbation_dN y) \<le> 2 * y ! k"
    by (simp add: order_resolved_def)
qed

lemma fd_within_tolerance:
  assumes i: "i < length y" and k: "k < length y"
    and len: "length y = length (core_species m)" and pos: "0 < sum_list y"
    and res: "resolved_in m y k" and sgn: "same_sign (jacobian_terms m y i k)"
  shows "\<bar>(fst (residual m 0 (y[k := y ! k + perturbation_dN y]) (zeros (length y))) ! i
            - fst (residual m 0 y (zeros (length y))) ! i) / perturbation_dN y
          - jacobian m 0 y (fst (residual m 0 y (zeros (length y)))) 0 ! i ! k\<bar>
        \<le> \<bar>(fst (residual m 0 (y[k := y ! k + perturbation_dN y]) (zeros (length y))) ! i
            - fst (residual m 0 y (zeros (length y))) ! i) / perturbation_dN y\<bar> / 10 ^ 4"
proof -
  let ?d = "perturbation_dN y"
  let ?y' = "y[k := y ! k + ?d]"
  let ?Q = "(species_rate m ?y' i - species_rate m y i) / ?d"
  have d: "0 < ?d" using pos by (simp add: perturbation_dN_def)
  have len': "i < length ?y'" "length ?y' = length (core_species m)"
    using i len by simp_all
  have q: "(fst (residual m 0 ?y' (zeros (length y))) ! i
            - fst (residual m 0 y (zeros (length y))) ! i) / ?d
      = - normalization m ! i * ?Q"
    unfolding residual_nth[OF len'] residual_nth[OF i len]
    by (simp add: algebra_simps diff_divide_distrib)
  have J: "jacobian m 0 y (fst (residual m 0 y (zeros (length y)))) 0 ! i ! k
      = - normalization m ! i * d_species_rate m y i k"
    using i k by (simp add: jacobian_def)
  have near: "\<bar>?Q - d_species_rate m y i k\<bar> \<le> \<bar>?Q\<bar> / 10 ^ 4"
    by (rule species_rate_near[OF k d resolved_in_dN(1)[OF res] resolved_in_dN(2)[OF res] sgn])
  have "- normalization m ! i * ?Q - (- normalization m ! i * d_species_rate m y i k)
      = - normalization m ! i * (?Q - d_species_rate m y i k)"
    by (simp only: right_diff_distrib)
  then have "\<bar>- normalization m ! i * ?Q - (- normalization m ! i * d_species_rate m y i k)\<bar>
      = \<bar>normalization m ! i\<bar> * \<bar>?Q - d_species_rate m y i k\<bar>"
    by (simp only: abs_mult abs_minus)
  also have "\<dots> \<le> \<bar>normalization m ! i\<bar> * (\<bar>?Q\<bar> / 10 ^ 4)"
    using near by (intro mult_left_mono) auto
  also have "\<dots> = \<bar>- normalization m ! i * ?Q\<bar> / 10 ^ 4"
    by (simp add: abs_mult)
  finally show ?thesis
    unfolding q J .
qed

text \<open>
  Each reactor of the Jacobian test has a single core reaction (line 223), and in each of
  the ten reactions every species stands on one side only. Then an entry has at most one
  contribution that is not zero, and the contributions have the same sign.
\<close>

lemma single_reaction_same_sign:
  assumes "k < length y" "length (core_reactions m) = 1"
    and "occurrences m (reactants (core_reactions m ! 0)) k = 0
       \<or> occurrences m (products (core_reactions m ! 0)) k = 0"
  shows "same_sign (jacobian_terms m y i k)"
proof -
  have terms: "jacobian_terms m y i k =
      [real_of_int (stoich m 0 i)
         * (k_forward m ! 0 * d_concentration_product m y (reactants (core_reactions m ! 0)) k),
       - (real_of_int (stoich m 0 i)
         * (if reversible m ! 0
            then k_reverse m ! 0
              * d_concentration_product m y (products (core_reactions m ! 0)) k
            else 0))]"
    using assms(2) by (simp add: jacobian_terms_def)
  from assms(3) show ?thesis
  proof
    assume "occurrences m (reactants (core_reactions m ! 0)) k = 0"
    from product_absent[OF assms(1) this, of 0]
    have "d_concentration_product m y (reactants (core_reactions m ! 0)) k = 0" by simp
    then show ?thesis
      unfolding terms same_sign_def by (simp add: linear)
  next
    assume "occurrences m (products (core_reactions m ! 0)) k = 0"
    from product_absent[OF assms(1) this, of 0]
    have "d_concentration_product m y (products (core_reactions m ! 0)) k = 0" by simp
    then show ?thesis
      unfolding terms same_sign_def by (simp add: linear)
  qed
qed

text \<open>
  Claim C2, as stated: for every valid state \<open>y\<close> and every index \<open>k\<close> the forward
  difference quotient with \<open>\<delta> = 1e-6 \<times> \<Sum>y\<close> agrees with column \<open>k\<close> of the analytic
  Jacobian within the relative tolerance \<open>1e-4\<close>. Two states show that it does not.
  At the vacant state of the model reaction (no \<open>HX\<close>) the reverse rate is quadratic in
  \<open>HX\<close>, the analytic entry \<open>(HX, HX)\<close> is \<open>0\<close>, the difference quotient is
  \<open>4e-6\<close>, and the comparison of lines 256-258 raises. At the crossing state of the
  gas-phase model every amount is large against \<open>\<delta>\<close>, but in the entry \<open>(C2H6, CH3)\<close>
  the contribution \<open>2 \<times> [CH3]\<close> of the recombination and the contribution
  \<open>- [C2H6]\<close> of the abstraction cancel: the analytic entry is \<open>0\<close>, the quotient is
  \<open>-6e-6\<close>, and the comparison raises.
\<close>

theorem fd_jacobian_disagrees:
  "fd_quotient (perturbed_residuals unit_model vacant_state)
       (fst (residual unit_model 0 vacant_state (zeros 3))) (perturbation_dN vacant_state) 2 2
     = Inr (4 / 10 ^ 6)
   \<and> jacobian unit_model 0 vacant_state (fst (residual unit_model 0 vacant_state (zeros 3))) 0 ! 2 ! 2
     = 0
   \<and> fd_jacobian_check unit_model vacant_state 2 2 = Inl AssertionError
   \<and> fd_quotient (perturbed_residuals gas_model crossing_state)
       (fst (residual gas_model 0 crossing_state (zeros 5))) (perturbation_dN crossing_state) 2 1
     = Inr (- (6 / 10 ^ 6))
   \<and> jacobian gas_model 0 crossing_state (fst (residual gas_model 0 crossing_state (zeros 5))) 0 ! 2 ! 1
     = 0
   \<and> fd_jacobian_check gas_model crossing_state 2 1 = Inl AssertionError
   \<and> resolved_in gas_model crossing_state 1"
proof -
  have vacant:
    "fd_quotient (perturbed_residuals unit_model vacant_state)
         (fst (residual unit_model 0 vacant_state (zeros 3))) (perturbation_dN vacant_state) 2 2
       = Inr (4 / 10 ^ 6)
     \<and> jacobian unit_model 0 vacant_state (fst (residual unit_model 0 vacant_state (zeros 3))) 0 ! 2 ! 2
       = 0
     \<and> fd_jacobian_check unit_model vacant_state 2 2 = Inl AssertionError"
    by (simp add: fd_jacobian_check_def jacobian_assertion_at_def fd_quotient_def
        perturbed_residuals_def residual_def jacobian_def getitem2_def getitem_def
        assertAlmostEqual_def perturbation_dN_def zeros_def
        coreSpeciesRates_def species_rate_def stoich_def net_rate_def d_species_rate_def
        d_net_rate_def concentration_product_def concentration_def unit_model_def
        vacant_state_def surface_model_def coreSpecies_def coreReactions_def rxn1_def
        upt_rec[of 0] upt_rec[of 1] upt_rec[of 2])
  have crossing:
    "fd_quotient (perturbed_residuals gas_model crossing_state)
         (fst (residual gas_model 0 crossing_state (zeros 5))) (perturbation_dN crossing_state) 2 1
       = Inr (- (6 / 10 ^ 6))
     \<and> jacobian gas_model 0 crossing_state (fst (residual gas_model 0 crossing_state (zeros 5))) 0 ! 2 ! 1
       = 0
     \<and> fd_jacobian_check gas_model crossing_state 2 1 = Inl AssertionError
     \<and> resolved_in gas_model crossing_state 1"
    by (simp add: fd_jacobian_check_def jacobian_assertion_at_def fd_quotient_def
        perturbed_residuals_def residual_def jacobian_def getitem2_def getitem_def
        assertAlmostEqual_def perturbation_dN_def zeros_def
        coreSpeciesRates_def species_rate_def stoich_def net_rate_def d_species_rate_def
        d_net_rate_def concentration_product_def concentration_def gas_model_def
        crossing_state_def rxnList_jacobian_def resolved_in_def order_resolved_def
        occurrences_def upt_rec[of 0] upt_rec[of 1] upt_rec[of 2] upt_rec[of 3] upt_rec[of 4])
  from vacant crossing show ?thesis by simp
qed

text \<open>
  Claim C2, amended: for every state \<open>y\<close> with \<open>\<Sum>y > 0\<close>, every perturbation index
  \<open>k\<close> and every entry \<open>i\<close>, the forward difference quotient with
  \<open>\<delta> = 1e-6 \<times> \<Sum>y\<close> agrees with entry \<open>(i, k)\<close> of the analytic Jacobian
  \<open>jacobian(t, y, dydt, 0.0)\<close> within the relative tolerance \<open>1e-4\<close>, and the comparison
  of lines 256-258 passes, in each of two cases: species \<open>k\<close> occurs at most once among
  the reactants and at most once among the products of every core reaction (then the two
  are equal); or the state resolves species \<open>k\<close>, that is
  \<open>y[k] \<ge> 5000.5 \<times> (a - 1) \<times> \<delta>\<close> wherever \<open>k\<close> occurs \<open>a \<ge> 2\<close> times among the
  reactants of a core reaction or among the products of a reversible one, and the
  contributions of the rate terms to the entry have the same sign.
\<close>

theorem fd_jacobian_within_tolerance:
  assumes "i < length y" "k < length y" "length y = length (core_species m)" "0 < sum_list y"
    and "first_order_in m k \<or> (resolved_in m y k \<and> same_sign (jacobian_terms m y i k))"
  shows "\<exists>q. fd_quotient (perturbed_residuals m y) (fst (residual m 0 y (zeros (length y))))
                (perturbation_dN y) i k = Inr q
           \<and> \<bar>q - jacobian m 0 y (fst (residual m 0 y (zeros (length y)))) 0 ! i ! k\<bar>
               \<le> \<bar>q\<bar> / 10 ^ 4
           \<and> (first_order_in m k \<longrightarrow>
                q = jacobian m 0 y (fst (residual m 0 y (zeros (length y)))) 0 ! i ! k)
           \<and> fd_jacobian_check m y i k = Inr ()"
proof -
  let ?F0 = "fst (residual m 0 y (zeros (length y)))"
  let ?J = "jacobian m 0 y ?F0 0 ! i ! k"
  let ?q = "(fst (residual m 0 (y[k := y ! k + perturbation_dN y]) (zeros (length y))) ! i
             - ?F0 ! i) / perturbation_dN y"
  have dN: "perturbation_dN y \<noteq> 0"
    using assms(4) by (simp add: perturbation_dN_def)
  have q: "fd_quotient (perturbed_residuals m y) ?F0 (perturbation_dN y) i k = Inr ?q"
    by (rule fd_quotient_spec[OF assms(1,2,3)])
  have J: "getitem2 (jacobian m 0 y ?F0 0) (int i) (int k) = Inr ?J"
    using assms(1,2) by (simp add: getitem2_def getitem_def jacobian_def)
  have exact: "?q = ?J" if "first_order_in m k"
    using fd_exact[OF assms(1,2,3) that dN] q by simp
  have tol: "\<bar>?q - ?J\<bar> \<le> \<bar>?q\<bar> / 10 ^ 4"
  proof (cases "first_order_in m k")
    case True
    from exact[OF True] show ?thesis by simp
  next
    case False
    with assms(5) have "resolved_in m y k" "same_sign (jacobian_terms m y i k)" by simp_all
    from fd_within_tolerance[OF assms(1,2,3,4) this] show ?thesis .
  qed
  then have "assertAlmostEqual ?q ?J \<bar>1 / 10 ^ 4 * ?q\<bar> = Inr ()"
    by (simp add: assertAlmostEqual_def abs_mult)
  then have "fd_jacobian_check m y i k = Inr ()"
    unfolding fd_jacobian_check_def jacobian_assertion_at_def
    by (simp add: q J)
  with q tol exact show ?thesis by blast
qed

lemma unit_model_first_order_H2: "first_order_in unit_model 0"
  by (simp add: first_order_in_def occurrences_def unit_model_def surface_model_def
      coreReactions_def coreSpecies_def rxn1_def)

lemma unit_model_X_at_balanced_state:
  "resolved_in unit_model balanced_state 1
   \<and> same_sign (jacobian_terms unit_model balanced_state 1 1)"
  by (simp add: resolved_in_def order_resolved_def perturbation_dN_def occurrences_def same_sign_def jacobian_terms_def
      stoich_def concentration_product_def concentration_def
      unit_model_def surface_model_def coreReactions_def coreSpecies_def rxn1_def
      balanced_state_def)

lemma unit_model_HX_at_balanced_state:
  "resolved_in unit_model balanced_state 2
   \<and> same_sign (jacobian_terms unit_model balanced_state 2 2)"
  by (simp add: resolved_in_def order_resolved_def perturbation_dN_def occurrences_def same_sign_def jacobian_terms_def
      stoich_def concentration_product_def concentration_def
      unit_model_def surface_model_def coreReactions_def coreSpecies_def rxn1_def
      balanced_state_def)

lemma unit_model_X_at_vacant_state:
  "resolved_in unit_model vacant_state 1
   \<and> same_sign (jacobian_terms unit_model vacant_state 1 1)"
  by (simp add: resolved_in_def order_resolved_def perturbation_dN_def occurrences_def same_sign_def jacobian_terms_def
      stoich_def concentration_product_def concentration_def
      unit_model_def surface_model_def coreReactions_def coreSpecies_def rxn1_def
      vacant_state_def)

lemma unit_model_lengths:
  "length balanced_state = length (core_species unit_model)"
  "length vacant_state = length (core_species unit_model)"
  "0 < sum_list balanced_state" "0 < sum_list vacant_state"
  "0 < length vacant_state"
  "1 < length balanced_state" "2 < length balanced_state" "1 < length vacant_state"
  by (simp_all add: balanced_state_def vacant_state_def unit_model_def surface_model_def
      coreSpecies_def)

text \<open>
  Claim C2, amended, on concrete inputs: the entries \<open>(X, X)\<close> and \<open>(HX, HX)\<close> at the
  balanced state and the entry \<open>(X, X)\<close> at the vacant state, all of the second order,
  where the quotient is not equal to the analytic entry (\<open>4 + 6e-6\<close> against \<open>4\<close> in
  the first of them) and within the tolerance; and the entry \<open>(H2, H2)\<close> at the vacant
  state, of the first order.
\<close>

theorem fd_jacobian_within_tolerance_witness:
  "fd_jacobian_check unit_model balanced_state 1 1 = Inr ()
   \<and> fd_jacobian_check unit_model balanced_state 2 2 = Inr ()
   \<and> fd_jacobian_check unit_model vacant_state 1 1 = Inr ()
   \<and> fd_jacobian_check unit_model vacant_state 0 0 = Inr ()
   \<and> fd_quotient (perturbed_residuals unit_model balanced_state)
        (fst (residual unit_model 0 balanced_state (zeros 3))) (perturbation_dN balanced_state) 1 1
      = Inr (4 + 6 / 10 ^ 6)
   \<and> jacobian unit_model 0 balanced_state
        (fst (residual unit_model 0 balanced_state (zeros 3))) 0 ! 1 ! 1 = 4"
proof -
  have "fd_jacobian_check unit_model balanced_state 1 1 = Inr ()"
    using fd_jacobian_within_tolerance[OF unit_model_lengths(6) unit_model_lengths(6)
        unit_model_lengths(1) unit_model_lengths(3) disjI2[OF unit_model_X_at_balanced_state]]
    by blast
  moreover have "fd_jacobian_check unit_model balanced_state 2 2 = Inr ()"
    using fd_jacobian_within_tolerance[OF unit_model_lengths(7) unit_model_lengths(7)
        unit_model_lengths(1) unit_model_lengths(3) disjI2[OF unit_model_HX_at_balanced_state]]
    by blast
  moreover have "fd_jacobian_check unit_model vacant_state 1 1 = Inr ()"
    using fd_jacobian_within_tolerance[OF unit_model_lengths(8) unit_model_lengths(8)
        unit_model_lengths(2) unit_model_lengths(4) disjI2[OF unit_model_X_at_vacant_state]]
    by blast
  moreover have "fd_jacobian_check unit_model vacant_state 0 0 = Inr ()"
    using fd_jacobian_within_tolerance[OF unit_model_lengths(5) unit_model_lengths(5)
        unit_model_lengths(2) unit_model_lengths(4) disjI1[OF unit_model_first_order_H2]]
    by blast
  moreover have
    "fd_quotient (perturbed_residuals unit_model balanced_state)
        (fst (residual unit_model 0 balanced_state (zeros 3))) (perturbation_dN balanced_state) 1 1
      = Inr (4 + 6 / 10 ^ 6)
     \<and> jacobian unit_model 0 balanced_state
        (fst (residual unit_model 0 balanced_state (zeros 3))) 0 ! 1 ! 1 = 4"
    by (simp add: fd_quotient_def perturbed_residuals_def residual_def jacobian_def getitem_def
        perturbation_dN_def zeros_def coreSpeciesRates_def species_rate_def stoich_def
        net_rate_def d_species_rate_def d_net_rate_def concentration_product_def
        concentration_def unit_model_def balanced_state_def surface_model_def coreSpecies_def
        coreReactions_def rxn1_def upt_rec[of 0] upt_rec[of 1] upt_rec[of 2] power2_eq_square)
  ultimately show ?thesis by simp
qed

text \<open>
  The bound on \<open>y[k]\<close> cannot be lowered by much: for the entry \<open>(HX, HX)\<close> of the
  model reaction with unit amounts of \<open>H2\<close> and \<open>X\<close> the comparison of lines 256-258
  passes with \<open>0.0101\<close> of \<open>HX\<close>, where the state resolves \<open>HX\<close>, and raises with
  \<open>0.0099\<close> of it.
\<close>

lemma resolution_bound_is_sharp:
  "resolved_in unit_model [1, 1, 101 / 10000] 2
   \<and> fd_jacobian_check unit_model [1, 1, 101 / 10000] 2 2 = Inr ()
   \<and> fd_jacobian_check unit_model [1, 1, 99 / 10000] 2 2 = Inl AssertionError"
  by (simp add: fd_jacobian_check_def jacobian_assertion_at_def fd_quotient_def
      perturbed_residuals_def residual_def jacobian_def getitem2_def getitem_def
      assertAlmostEqual_def perturbation_dN_def zeros_def
      coreSpeciesRates_def species_rate_def stoich_def net_rate_def d_species_rate_def
      d_net_rate_def concentration_product_def concentration_def unit_model_def
      surface_model_def coreSpecies_def coreReactions_def rxn1_def
      resolved_in_def order_resolved_def occurrences_def
      upt_rec[of 0] upt_rec[of 1] upt_rec[of 2])

end
